theory Spec2Isabelle
  imports Complex_Main "HOL-Library.Word"
begin

text \<open>
  The gift box and wallet settlement of the WishCube backend: the handlers
  \<^verbatim>\<open>purchaseGift\<close>, \<^verbatim>\<open>addToGiftBox\<close> and \<^verbatim>\<open>redeemGiftBox\<close> of the gift controller,
  \<^verbatim>\<open>fundWallet\<close>, \<^verbatim>\<open>verifyWalletPayment\<close> and \<^verbatim>\<open>paystackWebhook\<close> of the wallet controller, the
  Mongoose schemas they work on and the payment service they call, as functions from a
  database and a request to a response and a database. Each handler is run on its own,
  one call after the other: interleavings of concurrent requests are outside this model.
\<close>

section \<open>Numbers\<close>

text \<open>
  A JavaScript \<^verbatim>\<open>Number\<close> is an IEEE 754 double. A finite double is represented by the
  rational it denotes, and \<^verbatim>\<open>+\<close>, \<^verbatim>\<open>-\<close>, \<^verbatim>\<open>*\<close> and \<^verbatim>\<open>/\<close> return the exact result rounded to
  the nearest double, ties to the even significand. \<open>round64 x\<close> scales \<open>x\<close> by the power of
  two that brings its magnitude between \<open>2 ^ 52\<close> and \<open>2 ^ 53\<close>, rounds that to a whole
  number, and scales back. The exponent is not bounded here: infinities, NaN, subnormal
  numbers and the sign of zero are outside the model. \<^verbatim>\<open><\<close> and \<^verbatim>\<open>>=\<close> on doubles are the
  order of the rationals.
\<close>

function bitLength :: "int \<Rightarrow> nat" where
  "bitLength n = (if n \<le> 0 then 0 else Suc (bitLength (n div 2)))"
  by pat_completeness auto
termination
  by (relation "measure nat") auto

definition pow2 :: "int \<Rightarrow> rat" where
  "pow2 e = (if 0 \<le> e then 2 ^ nat e else 1 / 2 ^ nat (- e))"

text \<open>\<open>floorLog2 x\<close> is the \<open>k\<close> with \<open>pow2 k \<le> x < pow2 (k + 1)\<close>, for positive \<open>x\<close>.\<close>

definition floorLog2 :: "rat \<Rightarrow> int" where
  "floorLog2 x =
     (let (p, q) = quotient_of x;
          k = int (bitLength p) - int (bitLength q)
      in if pow2 k \<le> x then k else k - 1)"

definition roundHalfEven :: "rat \<Rightarrow> int" where
  "roundHalfEven y =
     (let f = \<lfloor>y\<rfloor>; r = y - of_int f
      in if r < 1 / 2 then f else if 1 / 2 < r then f + 1 else if even f then f else f + 1)"

definition round64 :: "rat \<Rightarrow> rat" where
  "round64 x =
     (if x = 0 then 0
      else
        let e = floorLog2 \<bar>x\<bar> - 52;
            m = roundHalfEven (\<bar>x\<bar> / pow2 e)
        in sgn x * of_int m * pow2 e)"

definition add64 :: "rat \<Rightarrow> rat \<Rightarrow> rat" where
  "add64 a b = round64 (a + b)"

definition sub64 :: "rat \<Rightarrow> rat \<Rightarrow> rat" where
  "sub64 a b = round64 (a - b)"

definition mul64 :: "rat \<Rightarrow> rat \<Rightarrow> rat" where
  "mul64 a b = round64 (a * b)"

definition div64 :: "rat \<Rightarrow> rat \<Rightarrow> rat" where
  "div64 a b = round64 (a / b)"


section \<open>Data model\<close>

text \<open>
  The documents of the Mongoose models \<^verbatim>\<open>Wallet\<close>, \<^verbatim>\<open>Gift\<close>, \<^verbatim>\<open>GiftBox\<close>, \<^verbatim>\<open>Card\<close> and
  \<^verbatim>\<open>Website\<close>, with the fields the gift and wallet controllers read or write.
  Record fields share one name space in HOL, so each field carries the initial of its
  document as a prefix (\<open>tx_amount\<close> is \<^verbatim>\<open>transaction.amount\<close>, \<open>w_balance\<close> is
  \<^verbatim>\<open>wallet.balance\<close>, \<open>b_id\<close> is the \<^verbatim>\<open>_id\<close> of a gift box). Money and the quantity of
  a line item are Numbers, as above. Stock, and the quantity of a purchase, which its
  validator restricts to whole numbers, are integers (doubles hold them exactly below
  \<open>2 ^ 53\<close>); a \<^verbatim>\<open>Date\<close> is its millisecond count; an ObjectId is a natural number, printed
  as 24 hexadecimal digits. An optional field is an \<open>option\<close>.
\<close>

type_synonym objectId = nat

datatype txType = credit | debit

datatype txStatus = pending | completed | failed

record transaction =
  tx_type :: txType
  tx_amount :: rat
  tx_reference :: string
  tx_description :: string
  tx_status :: txStatus
  tx_createdAt :: nat

record wallet =
  w_userId :: objectId
  w_balance :: rat
  w_currency :: string
  w_transactions :: "transaction list"

record gift =
  g_id :: objectId
  g_name :: string
  g_value :: rat
  g_price :: rat
  g_isActive :: bool
  g_stock :: "int option"

record giftBoxItem =
  i_giftId :: objectId
  i_quantity :: rat
  i_purchasedAt :: nat

record giftBox =
  b_id :: objectId
  b_cardId :: "objectId option"
  b_websiteId :: "objectId option"
  b_senderId :: objectId
  b_recipientEmail :: "string option"
  b_gifts :: "giftBoxItem list"
  b_isRedeemed :: bool
  b_redeemedAt :: "nat option"
  b_redemptionCode :: "string option"

record card =
  c_id :: objectId
  c_userId :: objectId
  c_giftBox :: "objectId option"

record website =
  s_id :: objectId
  s_userId :: objectId
  s_giftBox :: "objectId option"

record user =
  u_id :: objectId
  u_email :: string

subsection \<open>Identifiers in requests\<close>

text \<open>
  An identifier in a request body is absent, malformed, or a well-formed ObjectId;
  \<^verbatim>\<open>isMongoId()\<close> accepts only the last, and \<^verbatim>\<open>optional()\<close> lets an absent one pass.
\<close>

datatype idField = Undefined | Invalid | Id objectId

fun isMongoId :: "idField \<Rightarrow> bool" where
  "isMongoId (Id _) = True"
| "isMongoId _ = False"

fun optionalMongoId :: "idField \<Rightarrow> bool" where
  "optionalMongoId Invalid = False"
| "optionalMongoId _ = True"

text \<open>The database: one list of documents per collection, in insertion order.\<close>

record db =
  wallets :: "wallet list"
  gifts :: "gift list"
  giftBoxes :: "giftBox list"
  cards :: "card list"
  websites :: "website list"

subsection \<open>Collection access\<close>

text \<open>
  \<^verbatim>\<open>Model.findOne(filter)\<close> returns the first document that matches, or null.
  A loaded document that is mutated and then saved with \<^verbatim>\<open>doc.save()\<close> is written back
  to its own place (MongoDB updates the one document with its \<^verbatim>\<open>_id\<close>): \<open>save P d\<close>
  replaces the first document matching the filter \<open>P\<close> that loaded it, the handlers
  changing no field that their filter reads.
\<close>

definition findOne :: "('a \<Rightarrow> bool) \<Rightarrow> 'a list \<Rightarrow> 'a option" where
  "findOne P xs = find P xs"

fun save :: "('a \<Rightarrow> bool) \<Rightarrow> 'a \<Rightarrow> 'a list \<Rightarrow> 'a list" where
  "save P d [] = []"
| "save P d (x # xs) = (if P x then d # xs else x # save P d xs)"

text \<open>The filters the controllers use.\<close>

definition byUserId :: "objectId \<Rightarrow> wallet \<Rightarrow> bool" where
  "byUserId uid w \<longleftrightarrow> w_userId w = uid"

definition byGiftId :: "idField \<Rightarrow> gift \<Rightarrow> bool" where
  "byGiftId giftId g \<longleftrightarrow> Id (g_id g) = giftId"

definition byTransactionReference :: "string \<Rightarrow> wallet \<Rightarrow> bool" where
  "byTransactionReference r w \<longleftrightarrow> list_ex (\<lambda>t. tx_reference t = r) (w_transactions w)"

definition byRedemptionCode :: "string \<Rightarrow> giftBox \<Rightarrow> bool" where
  "byRedemptionCode code b \<longleftrightarrow> b_redemptionCode b = Some code"

text \<open>
  Schema validation, run by every \<^verbatim>\<open>save()\<close> and \<^verbatim>\<open>create()\<close>: the \<^verbatim>\<open>min\<close> constraints of
  the schemas. A document that fails it is not written and the call throws, which each
  handler's \<^verbatim>\<open>catch\<close> turns into status 500.
\<close>

definition walletValid :: "wallet \<Rightarrow> bool" where
  "walletValid w \<longleftrightarrow> 0 \<le> w_balance w"

definition giftValid :: "gift \<Rightarrow> bool" where
  "giftValid g \<longleftrightarrow> 0 \<le> g_value g \<and> 0 \<le> g_price g \<and>
     (case g_stock g of None \<Rightarrow> True | Some st \<Rightarrow> 0 \<le> st)"

definition giftBoxValid :: "giftBox \<Rightarrow> bool" where
  "giftBoxValid b \<longleftrightarrow> list_all (\<lambda>i. 1 \<le> i_quantity i) (b_gifts b)"

definition saveWallet :: "(wallet \<Rightarrow> bool) \<Rightarrow> wallet \<Rightarrow> wallet list \<Rightarrow> wallet list option" where
  "saveWallet P w ws = (if walletValid w then Some (save P w ws) else None)"

definition saveGift :: "(gift \<Rightarrow> bool) \<Rightarrow> gift \<Rightarrow> gift list \<Rightarrow> gift list option" where
  "saveGift P g gs = (if giftValid g then Some (save P g gs) else None)"

text \<open>\<^verbatim>\<open>getOrCreateWallet\<close>: the wallet of the user, created empty when there is none.\<close>

definition newWallet :: "objectId \<Rightarrow> wallet" where
  "newWallet uid = \<lparr> w_userId = uid, w_balance = 0, w_currency = ''NGN'', w_transactions = [] \<rparr>"

definition getOrCreateWallet :: "objectId \<Rightarrow> wallet list \<Rightarrow> wallet \<times> wallet list" where
  "getOrCreateWallet uid ws =
     (case findOne (byUserId uid) ws of
        Some w \<Rightarrow> (w, ws)
      | None \<Rightarrow> (newWallet uid, ws @ [newWallet uid]))"

subsection \<open>Responses\<close>

text \<open>
  A response is the HTTP status with the message of an error body, or the data of a
  success body. \<open>Errors400\<close> is the status 400 that carries the validator's error array.
\<close>

datatype response =
    Errors400
  | Fail nat string
  | PurchaseOk gift int rat rat
  | BoxOk giftBox
  | RedeemOk giftBox rat bool
  | FundOk string string
  | VerifyOk rat rat
  | WebhookOk

section \<open>purchaseGift\<close>

record purchaseBody =
  pb_giftId :: idField
  pb_quantity :: "int option"

definition purchaseGiftValidator :: "purchaseBody \<Rightarrow> bool" where
  "purchaseGiftValidator body \<longleftrightarrow>
     isMongoId (pb_giftId body) \<and>
     (case pb_quantity body of None \<Rightarrow> True | Some q \<Rightarrow> 1 \<le> q)"

text \<open>\<^verbatim>\<open>const { quantity = 1 } = req.body\<close>: an absent quantity is 1.\<close>

definition requestedQuantity :: "int option \<Rightarrow> int" where
  "requestedQuantity q = (case q of None \<Rightarrow> 1 | Some n \<Rightarrow> n)"

fun digitsOf :: "nat \<Rightarrow> string" where
  "digitsOf n =
     (if n < 10 then [''0123456789'' ! n]
      else digitsOf (n div 10) @ [''0123456789'' ! (n mod 10)])"

definition showInt :: "int \<Rightarrow> string" where
  "showInt i = (if i < 0 then CHR ''-'' # digitsOf (nat (- i)) else digitsOf (nat i))"

definition purchaseTransaction :: "nat \<Rightarrow> int \<Rightarrow> gift \<Rightarrow> rat \<Rightarrow> transaction" where
  "purchaseTransaction now quantity gift totalPrice =
     \<lparr> tx_type = debit, tx_amount = totalPrice,
       tx_reference = ''GIFT_'' @ digitsOf now,
       tx_description = ''Purchased '' @ showInt quantity @ ''x '' @ g_name gift,
       tx_status = completed, tx_createdAt = now \<rparr>"

text \<open>
  \<open>purchaseGift s usr now body\<close>: the handler run by the authenticated user \<open>usr\<close> at
  time \<open>now\<close> on database \<open>s\<close>; it returns the response and the database it leaves.
\<close>

definition purchaseGift :: "db \<Rightarrow> user \<Rightarrow> nat \<Rightarrow> purchaseBody \<Rightarrow> response \<times> db" where
  "purchaseGift s usr now body =
     (if \<not> purchaseGiftValidator body then (Errors400, s)
      else
        let quantity = requestedQuantity (pb_quantity body) in
        case findOne (byGiftId (pb_giftId body)) (gifts s) of
          None \<Rightarrow> (Fail 404 ''Gift not found.'', s)
        | Some gift \<Rightarrow>
            if \<not> g_isActive gift then (Fail 404 ''Gift not found.'', s)
            else if (case g_stock gift of None \<Rightarrow> False | Some st \<Rightarrow> st < quantity)
              then (Fail 400 ''Insufficient stock.'', s)
            else
              let totalPrice = mul64 (g_price gift) (of_int quantity) in
              (case findOne (byUserId (u_id usr)) (wallets s) of
                None \<Rightarrow> (Fail 400 ''Insufficient wallet balance.'', s)
              | Some wallet \<Rightarrow>
                  if w_balance wallet < totalPrice
                    then (Fail 400 ''Insufficient wallet balance.'', s)
                  else
                    let wallet' = wallet
                          \<lparr> w_balance := sub64 (w_balance wallet) totalPrice,
                            w_transactions := w_transactions wallet @
                              [purchaseTransaction now quantity gift totalPrice] \<rparr>
                    in
                    (case saveWallet (byUserId (u_id usr)) wallet' (wallets s) of
                       None \<Rightarrow> (Fail 500 ''Failed to purchase gift.'', s)
                     | Some ws \<Rightarrow>
                         let s1 = s \<lparr> wallets := ws \<rparr> in
                         (case g_stock gift of
                            None \<Rightarrow> (PurchaseOk gift quantity totalPrice (w_balance wallet'), s1)
                          | Some st \<Rightarrow>
                              let gift' = gift \<lparr> g_stock := Some (st - quantity) \<rparr> in
                              (case saveGift (byGiftId (pb_giftId body)) gift' (gifts s1) of
                                 None \<Rightarrow> (Fail 500 ''Failed to purchase gift.'', s1)
                               | Some gs \<Rightarrow>
                                   (PurchaseOk gift' quantity totalPrice (w_balance wallet'),
                                    s1 \<lparr> gifts := gs \<rparr>))))))"

section \<open>The runtime\<close>

text \<open>
  What the handlers call and the repository does not define is a parameter of the model:
  \<^verbatim>\<open>crypto.createHmac("sha512", key)\<close> with its hex digest, \<^verbatim>\<open>JSON.stringify\<close> of a webhook
  body, the secret key of the environment, the conversion of a Number to a string that
  \<^verbatim>\<open>+\<close> applies when its other operand is a string, and the cast of a string that Mongoose
  applies when the string is stored in a Number field (\<open>None\<close> when the cast fails; the
  empty string, which it casts to null, is not considered).
\<close>

record webhookData =
  d_reference :: string
  d_amount :: rat

record webhookBody =
  wb_event :: string
  wb_data :: "webhookData option"

record runtime =
  hmacSha512Hex :: "string \<Rightarrow> string \<Rightarrow> string"
  stringify :: "webhookBody \<Rightarrow> string"
  secretKey :: string
  numberToString :: "rat \<Rightarrow> string"
  castNumber :: "string \<Rightarrow> rat option"

section \<open>Gift boxes\<close>

subsection \<open>Redemption codes and the pre-save hook\<close>

text \<open>
  \<^verbatim>\<open>crypto.randomBytes(n).toString("hex")\<close>: the \<open>8 * n\<close> random bits are an input of the
  model, a word of that width, printed as \<open>2 * n\<close> hexadecimal digits. A digit is read
  from the table of digits at an index below its length (\<open>n mod 16\<close> here, \<open>n mod 10\<close> or
  \<open>n < 10\<close> in \<open>digitsOf\<close>).
\<close>

definition hexDigit :: "nat \<Rightarrow> char" where
  "hexDigit d = ''0123456789abcdef'' ! d"

fun hexString :: "nat \<Rightarrow> nat \<Rightarrow> string" where
  "hexString 0 n = []"
| "hexString (Suc k) n = hexString k (n div 16) @ [hexDigit (n mod 16)]"

definition toUpperCase :: "string \<Rightarrow> string" where
  "toUpperCase cs =
     map (\<lambda>c. if 97 \<le> (of_char c :: nat) \<and> (of_char c :: nat) \<le> 122
               then char_of ((of_char c :: nat) - 32) else c) cs"

definition generateRedemptionCode :: "48 word \<Rightarrow> string" where
  "generateRedemptionCode rnd = toUpperCase (hexString 12 (unat rnd))"

text \<open>
  The \<^verbatim>\<open>pre("save")\<close> hook of the gift box schema: a code is generated only when
  \<^verbatim>\<open>!this.redemptionCode\<close>, that is when the field is absent or the empty string.
\<close>

definition preSave :: "48 word \<Rightarrow> giftBox \<Rightarrow> giftBox" where
  "preSave rnd box =
     (if b_redemptionCode box = None \<or> b_redemptionCode box = Some []
      then box \<lparr> b_redemptionCode := Some (generateRedemptionCode rnd) \<rparr>
      else box)"

text \<open>
  Writing a gift box: validation, then the hook, then the unique index on
  \<^verbatim>\<open>redemptionCode\<close>, which rejects a code that another document holds. \<open>None\<close> is the
  thrown error. An ObjectId given to a new document is one no document of the collection has.
\<close>

definition newObjectId :: "objectId list \<Rightarrow> objectId" where
  "newObjectId ids = Suc (fold max ids 0)"

definition createGiftBox :: "48 word \<Rightarrow> giftBox \<Rightarrow> giftBox list \<Rightarrow> (giftBox \<times> giftBox list) option" where
  "createGiftBox rnd doc boxes =
     (if \<not> giftBoxValid doc then None
      else
        let box = preSave rnd (doc \<lparr> b_id := newObjectId (map b_id boxes) \<rparr>) in
        if b_redemptionCode box \<in> set (map b_redemptionCode boxes) then None
        else Some (box, boxes @ [box]))"

definition saveGiftBox :: "(giftBox \<Rightarrow> bool) \<Rightarrow> 48 word \<Rightarrow> giftBox \<Rightarrow> giftBox list \<Rightarrow> (giftBox \<times> giftBox list) option" where
  "saveGiftBox P rnd doc boxes =
     (if \<not> giftBoxValid doc then None
      else
        let box = preSave rnd doc in
        if b_redemptionCode box \<noteq> b_redemptionCode doc \<and>
           b_redemptionCode box \<in> set (map b_redemptionCode boxes) then None
        else Some (box, save P box boxes))"

subsection \<open>addToGiftBox\<close>

text \<open>
  The body of the request. \<open>giftId\<close> is kept as the text the client sent, because the
  handler compares that text with the ids of the line items; \<open>cardId\<close> and \<open>websiteId\<close>
  only reach Mongoose, which casts them, and are the \<open>idField\<close> of the ObjectId they
  denote. \<^verbatim>\<open>addToGiftBoxValidator\<close> has no rule for \<open>quantity\<close>: it is absent, a number or a
  string.
\<close>

datatype quantityField = QNumber rat | QText string

record boxBody =
  bb_giftId :: "string option"
  bb_cardId :: idField
  bb_websiteId :: idField
  bb_quantity :: "quantityField option"
  bb_recipientEmail :: "string option"

text \<open>
  \<^verbatim>\<open>isMongoId()\<close> accepts a text of 24 hexadecimal digits, with letters of either case.
  Mongoose reads such a text as the ObjectId of that value, and \<^verbatim>\<open>ObjectId.toString()\<close>
  prints an ObjectId as 24 digits with letters in lower case.
\<close>

definition isHexDigit :: "char \<Rightarrow> bool" where
  "isHexDigit c \<longleftrightarrow> c \<in> set ''0123456789abcdefABCDEF''"

definition isMongoIdText :: "string \<Rightarrow> bool" where
  "isMongoIdText t \<longleftrightarrow> length t = 24 \<and> list_all isHexDigit t"

definition hexValue :: "char \<Rightarrow> nat" where
  "hexValue c =
     (if c \<in> set ''0123456789'' then of_char c - 48
      else if c \<in> set ''abcdef'' then of_char c - 87
      else of_char c - 55)"

definition parseObjectId :: "string \<Rightarrow> objectId" where
  "parseObjectId t = foldl (\<lambda>n c. 16 * n + hexValue c) 0 t"

definition objectIdToString :: "objectId \<Rightarrow> string" where
  "objectIdToString i = hexString 24 i"

definition addToGiftBoxValidator :: "boxBody \<Rightarrow> bool" where
  "addToGiftBoxValidator body \<longleftrightarrow>
     (case bb_giftId body of None \<Rightarrow> False | Some giftId \<Rightarrow> isMongoIdText giftId) \<and>
     optionalMongoId (bb_cardId body) \<and> optionalMongoId (bb_websiteId body)"

text \<open>\<^verbatim>\<open>const { quantity = 1 } = req.body\<close>: an absent quantity is the number 1.\<close>

definition requestedBoxQuantity :: "quantityField option \<Rightarrow> quantityField" where
  "requestedBoxQuantity q = (case q of None \<Rightarrow> QNumber 1 | Some v \<Rightarrow> v)"

fun idOf :: "idField \<Rightarrow> objectId option" where
  "idOf (Id i) = Some i"
| "idOf _ = None"

definition ownsCard :: "objectId \<Rightarrow> idField \<Rightarrow> card \<Rightarrow> bool" where
  "ownsCard uid cardId c \<longleftrightarrow> Id (c_id c) = cardId \<and> c_userId c = uid"

definition ownsWebsite :: "objectId \<Rightarrow> idField \<Rightarrow> website \<Rightarrow> bool" where
  "ownsWebsite uid websiteId w \<longleftrightarrow> Id (s_id w) = websiteId \<and> s_userId w = uid"

text \<open>
  The filter of the find-or-create step:
  \<^verbatim>\<open>{ senderId, ...(cardId ? { cardId } : { websiteId }), isRedeemed: false }\<close>.
\<close>

definition openBoxFor :: "objectId \<Rightarrow> idField \<Rightarrow> idField \<Rightarrow> giftBox \<Rightarrow> bool" where
  "openBoxFor uid cardId websiteId b \<longleftrightarrow>
     b_senderId b = uid \<and>
     (if cardId \<noteq> Undefined then b_cardId b = idOf cardId
      else b_websiteId b = idOf websiteId) \<and>
     \<not> b_isRedeemed b"

text \<open>\<^verbatim>\<open>Card.findByIdAndUpdate(cardId, { giftBox: id })\<close> and the same for a website.\<close>

fun linkCard :: "idField \<Rightarrow> objectId \<Rightarrow> card list \<Rightarrow> card list" where
  "linkCard cardId boxId [] = []"
| "linkCard cardId boxId (c # cs) =
     (if Id (c_id c) = cardId then c \<lparr> c_giftBox := Some boxId \<rparr> # cs
      else c # linkCard cardId boxId cs)"

fun linkWebsite :: "idField \<Rightarrow> objectId \<Rightarrow> website list \<Rightarrow> website list" where
  "linkWebsite websiteId boxId [] = []"
| "linkWebsite websiteId boxId (w # ws) =
     (if Id (s_id w) = websiteId then w \<lparr> s_giftBox := Some boxId \<rparr> # ws
      else w # linkWebsite websiteId boxId ws)"

text \<open>
  The merge of line items. \<^verbatim>\<open>giftBox.gifts.find((g) => g.giftId.toString() === giftId)\<close>
  looks for the first item whose id, printed, is the text of the request: the predicate
  is \<open>byGiftIdText giftId\<close>. When there is one, \<^verbatim>\<open>existingGift.quantity += quantity\<close>
  adds a number to its quantity, or appends a string to the printed quantity, and
  Mongoose casts the result back to a Number. When there is none, an item is pushed at
  the end, stamped with the time of the call, and Mongoose casts its \<open>giftId\<close> to an
  ObjectId and its \<open>quantity\<close> to a Number. A cast that fails makes the \<^verbatim>\<open>save()\<close> that
  follows throw: that is \<open>None\<close>.
\<close>

definition byGiftIdText :: "string \<Rightarrow> giftBoxItem \<Rightarrow> bool" where
  "byGiftIdText giftId g \<longleftrightarrow> objectIdToString (i_giftId g) = giftId"

definition plusAssign :: "runtime \<Rightarrow> rat \<Rightarrow> quantityField \<Rightarrow> rat option" where
  "plusAssign rt n quantity =
     (case quantity of
        QNumber q \<Rightarrow> Some (add64 n q)
      | QText t \<Rightarrow> castNumber rt (numberToString rt n @ t))"

definition castQuantity :: "runtime \<Rightarrow> quantityField \<Rightarrow> rat option" where
  "castQuantity rt quantity =
     (case quantity of QNumber q \<Rightarrow> Some q | QText t \<Rightarrow> castNumber rt t)"

fun raiseFirst :: "runtime \<Rightarrow> string \<Rightarrow> quantityField \<Rightarrow> giftBoxItem list \<Rightarrow> giftBoxItem list option" where
  "raiseFirst rt giftId quantity [] = Some []"
| "raiseFirst rt giftId quantity (i # is) =
     (if byGiftIdText giftId i
      then (case plusAssign rt (i_quantity i) quantity of
              None \<Rightarrow> None
            | Some n \<Rightarrow> Some (i \<lparr> i_quantity := n \<rparr> # is))
      else (case raiseFirst rt giftId quantity is of
              None \<Rightarrow> None
            | Some is' \<Rightarrow> Some (i # is')))"

definition addItem :: "runtime \<Rightarrow> string \<Rightarrow> quantityField \<Rightarrow> nat \<Rightarrow> giftBoxItem list \<Rightarrow> giftBoxItem list option" where
  "addItem rt giftId quantity now items =
     (case find (byGiftIdText giftId) items of
        Some existingGift \<Rightarrow> raiseFirst rt giftId quantity items
      | None \<Rightarrow>
          (case castQuantity rt quantity of
             None \<Rightarrow> None
           | Some q \<Rightarrow> Some (items @
               [\<lparr> i_giftId = parseObjectId giftId, i_quantity = q, i_purchasedAt = now \<rparr>])))"

text \<open>
  The find-or-create step on its own: the open box of the sender for the target, or a
  new one, linked to the card (else to the website). \<open>None\<close> is the error thrown by
  \<^verbatim>\<open>GiftBox.create\<close>. In \<open>addToGiftBox\<close> the response carries the box as saved; the
  source reads it back by its \<^verbatim>\<open>_id\<close> and populates the gifts of its items for display.
\<close>

definition findOrCreateGiftBox :: "db \<Rightarrow> user \<Rightarrow> 48 word \<Rightarrow> boxBody \<Rightarrow> (giftBox \<times> db) option" where
  "findOrCreateGiftBox s usr rnd body =
     (case findOne (openBoxFor (u_id usr) (bb_cardId body) (bb_websiteId body)) (giftBoxes s) of
        Some giftBox \<Rightarrow> Some (giftBox, s)
      | None \<Rightarrow>
          (case createGiftBox rnd
                  \<lparr> b_id = 0, b_cardId = idOf (bb_cardId body),
                    b_websiteId = idOf (bb_websiteId body), b_senderId = u_id usr,
                    b_recipientEmail = bb_recipientEmail body, b_gifts = [],
                    b_isRedeemed = False, b_redeemedAt = None, b_redemptionCode = None \<rparr>
                  (giftBoxes s) of
             None \<Rightarrow> None
           | Some (giftBox, boxes) \<Rightarrow>
               Some (giftBox,
                 if bb_cardId body \<noteq> Undefined
                 then s \<lparr> giftBoxes := boxes,
                          cards := linkCard (bb_cardId body) (b_id giftBox) (cards s) \<rparr>
                 else if bb_websiteId body \<noteq> Undefined
                 then s \<lparr> giftBoxes := boxes,
                          websites := linkWebsite (bb_websiteId body) (b_id giftBox) (websites s) \<rparr>
                 else s \<lparr> giftBoxes := boxes \<rparr>)))"

definition addToGiftBox :: "runtime \<Rightarrow> db \<Rightarrow> user \<Rightarrow> 48 word \<Rightarrow> nat \<Rightarrow> boxBody \<Rightarrow> response \<times> db" where
  "addToGiftBox rt s usr rnd now body =
     (case bb_giftId body of
        None \<Rightarrow> (Errors400, s)
      | Some giftId \<Rightarrow>
          if \<not> addToGiftBoxValidator body then (Errors400, s)
          else
            let quantity = requestedBoxQuantity (bb_quantity body) in
            if bb_cardId body = Undefined \<and> bb_websiteId body = Undefined
              then (Fail 400 ''Either cardId or websiteId is required.'', s)
            else
              (case findOne (byGiftId (Id (parseObjectId giftId))) (gifts s) of
                 None \<Rightarrow> (Fail 404 ''Gift not found.'', s)
               | Some gift \<Rightarrow>
                   if \<not> g_isActive gift then (Fail 404 ''Gift not found.'', s)
                   else if bb_cardId body \<noteq> Undefined \<and>
                           findOne (ownsCard (u_id usr) (bb_cardId body)) (cards s) = None
                     then (Fail 404 ''Card not found.'', s)
                   else if bb_websiteId body \<noteq> Undefined \<and>
                           findOne (ownsWebsite (u_id usr) (bb_websiteId body)) (websites s) = None
                     then (Fail 404 ''Website not found.'', s)
                   else
                     (case findOrCreateGiftBox s usr rnd body of
                        None \<Rightarrow> (Fail 500 ''Failed to add gift to box.'', s)
                      | Some (giftBox, s1) \<Rightarrow>
                          (case addItem rt giftId quantity now (b_gifts giftBox) of
                             None \<Rightarrow> (Fail 500 ''Failed to add gift to box.'', s1)
                           | Some items \<Rightarrow>
                               (case saveGiftBox
                                       (openBoxFor (u_id usr) (bb_cardId body) (bb_websiteId body))
                                       rnd (giftBox \<lparr> b_gifts := items \<rparr>) (giftBoxes s1) of
                                  None \<Rightarrow> (Fail 500 ''Failed to add gift to box.'', s1)
                                | Some (saved, boxes) \<Rightarrow>
                                    (BoxOk saved, s1 \<lparr> giftBoxes := boxes \<rparr>))))))"

subsection \<open>redeemGiftBox\<close>

text \<open>
  The total value is a \<^verbatim>\<open>reduce\<close> over the populated items. \<^verbatim>\<open>populate\<close> leaves null
  where the gift is no longer in the catalog, and reading \<^verbatim>\<open>value\<close> from it throws:
  that is \<open>None\<close>.
\<close>

fun reduceValue :: "gift list \<Rightarrow> rat \<Rightarrow> giftBoxItem list \<Rightarrow> rat option" where
  "reduceValue gs acc [] = Some acc"
| "reduceValue gs acc (item # rest) =
     (case findOne (\<lambda>g. g_id g = i_giftId item) gs of
        None \<Rightarrow> None
      | Some gift \<Rightarrow>
          reduceValue gs (add64 acc (mul64 (g_value gift) (i_quantity item))) rest)"

definition redeemTransaction :: "nat \<Rightarrow> giftBox \<Rightarrow> rat \<Rightarrow> transaction" where
  "redeemTransaction now giftBox totalValue =
     \<lparr> tx_type = credit, tx_amount = totalValue,
       tx_reference = ''REDEEM_'' @ (case b_redemptionCode giftBox of None \<Rightarrow> ''undefined'' | Some c \<Rightarrow> c),
       tx_description = ''Gift box redemption'',
       tx_status = completed, tx_createdAt = now \<rparr>"

definition redeemGiftBox :: "db \<Rightarrow> 48 word \<Rightarrow> nat \<Rightarrow> string \<Rightarrow> user option \<Rightarrow> response \<times> db" where
  "redeemGiftBox s rnd now code usr =
     (case findOne (byRedemptionCode code) (giftBoxes s) of
        None \<Rightarrow> (Fail 404 ''Gift box not found.'', s)
      | Some giftBox \<Rightarrow>
          if b_isRedeemed giftBox
            then (Fail 400 ''This gift box has already been redeemed.'', s)
          else
            (case saveGiftBox (byRedemptionCode code) rnd
                    (giftBox \<lparr> b_isRedeemed := True, b_redeemedAt := Some now \<rparr>)
                    (giftBoxes s) of
               None \<Rightarrow> (Fail 500 ''Failed to redeem gift box.'', s)
             | Some (saved, boxes) \<Rightarrow>
                 let s1 = s \<lparr> giftBoxes := boxes \<rparr> in
                 (case reduceValue (gifts s) 0 (b_gifts giftBox) of
                    None \<Rightarrow> (Fail 500 ''Failed to redeem gift box.'', s1)
                  | Some totalValue \<Rightarrow>
                      (case usr of
                         None \<Rightarrow> (RedeemOk saved totalValue False, s1)
                       | Some u \<Rightarrow>
                           let (wallet, ws) = getOrCreateWallet (u_id u) (wallets s1);
                               wallet' = wallet
                                 \<lparr> w_balance := add64 (w_balance wallet) totalValue,
                                   w_transactions := w_transactions wallet @
                                     [redeemTransaction now saved totalValue] \<rparr>
                           in
                           (case saveWallet (byUserId (u_id u)) wallet' ws of
                              None \<Rightarrow> (Fail 500 ''Failed to redeem gift box.'', s1 \<lparr> wallets := ws \<rparr>)
                            | Some ws' \<Rightarrow>
                                (RedeemOk saved totalValue True, s1 \<lparr> wallets := ws' \<rparr>))))))"

section \<open>Wallet funding\<close>

subsection \<open>The payment service\<close>

text \<open>
  The gateway is outside the repository. A call of \<^verbatim>\<open>initializePayment\<close> or
  \<^verbatim>\<open>verifyPayment\<close> is modelled by its outcome, an input of the handler: the data
  returned, or \<open>None\<close> when the service throws. The hash and the serialisation of the
  webhook payload are those of the runtime.
\<close>

record initData =
  authorization_url :: string
  init_reference :: string

record verifyData =
  v_status :: string
  v_amount :: rat

definition verifyWebhookSignature :: "runtime \<Rightarrow> string \<Rightarrow> string option \<Rightarrow> bool" where
  "verifyWebhookSignature rt payload signature \<longleftrightarrow>
     (let hash = hmacSha512Hex rt (secretKey rt) payload in Some hash = signature)"

definition generatePaymentReference :: "nat \<Rightarrow> 32 word \<Rightarrow> string" where
  "generatePaymentReference now rnd = ''WC_'' @ digitsOf now @ ''_'' @ hexString 8 (unat rnd)"

subsection \<open>fundWallet\<close>

definition fundWalletValidator :: "rat option \<Rightarrow> bool" where
  "fundWalletValidator amount \<longleftrightarrow> (case amount of None \<Rightarrow> False | Some a \<Rightarrow> 100 \<le> a)"

definition fundingTransaction :: "nat \<Rightarrow> string \<Rightarrow> rat \<Rightarrow> transaction" where
  "fundingTransaction now reference amount =
     \<lparr> tx_type = credit, tx_amount = amount, tx_reference = reference,
       tx_description = ''Wallet funding'', tx_status = pending, tx_createdAt = now \<rparr>"

definition fundWallet :: "db \<Rightarrow> user \<Rightarrow> nat \<Rightarrow> 32 word \<Rightarrow> rat option \<Rightarrow> initData option \<Rightarrow> response \<times> db" where
  "fundWallet s usr now rnd amount paymentData =
     (case amount of
        None \<Rightarrow> (Errors400, s)
      | Some a \<Rightarrow>
          if \<not> fundWalletValidator amount then (Errors400, s)
          else
            let (wallet, ws) = getOrCreateWallet (u_id usr) (wallets s);
                reference = generatePaymentReference now rnd;
                wallet' = wallet \<lparr> w_transactions := w_transactions wallet @
                                     [fundingTransaction now reference a] \<rparr>
            in
            (case saveWallet (byUserId (u_id usr)) wallet' ws of
               None \<Rightarrow> (Fail 500 ''Failed to initialize payment.'', s \<lparr> wallets := ws \<rparr>)
             | Some ws' \<Rightarrow>
                 (case paymentData of
                    None \<Rightarrow> (Fail 500 ''Failed to initialize payment.'', s \<lparr> wallets := ws' \<rparr>)
                  | Some pd \<Rightarrow>
                      (FundOk (authorization_url pd) (init_reference pd),
                       s \<lparr> wallets := ws' \<rparr>))))"

subsection \<open>Settlement: verifyWalletPayment and paystackWebhook\<close>

text \<open>
  Both handlers locate the first transaction with the reference and, when it is pending,
  mark it completed and raise the balance: by the amount of the transaction in
  \<^verbatim>\<open>verifyWalletPayment\<close>, by the amount of the payload divided by 100 in
  \<^verbatim>\<open>paystackWebhook\<close>.
\<close>

fun complete :: "string \<Rightarrow> transaction list \<Rightarrow> transaction list" where
  "complete r [] = []"
| "complete r (t # ts) =
     (if tx_reference t = r then t \<lparr> tx_status := completed \<rparr> # ts
      else t # complete r ts)"

definition verifyWalletPayment :: "db \<Rightarrow> string option \<Rightarrow> verifyData option \<Rightarrow> response \<times> db" where
  "verifyWalletPayment s reference paymentData =
     (case reference of
        None \<Rightarrow> (Fail 400 ''Reference is required.'', s)
      | Some r \<Rightarrow>
          if r = [] then (Fail 400 ''Reference is required.'', s)
          else
            (case paymentData of
               None \<Rightarrow> (Fail 500 ''Failed to verify payment.'', s)
             | Some pd \<Rightarrow>
                 if v_status pd \<noteq> ''success''
                   then (Fail 400 ''Payment was not successful.'', s)
                 else
                   (case findOne (byTransactionReference r) (wallets s) of
                      None \<Rightarrow> (Fail 404 ''Transaction not found.'', s)
                    | Some wallet \<Rightarrow>
                        (case find (\<lambda>t. tx_reference t = r) (w_transactions wallet) of
                           None \<Rightarrow> (VerifyOk (w_balance wallet) (div64 (v_amount pd) 100), s)
                         | Some transaction \<Rightarrow>
                             if tx_status transaction = pending then
                               let wallet' = wallet
                                     \<lparr> w_balance := add64 (w_balance wallet) (tx_amount transaction),
                                       w_transactions := complete r (w_transactions wallet) \<rparr>
                               in
                               (case saveWallet (byTransactionReference r) wallet' (wallets s) of
                                  None \<Rightarrow> (Fail 500 ''Failed to verify payment.'', s)
                                | Some ws \<Rightarrow>
                                    (VerifyOk (w_balance wallet') (div64 (v_amount pd) 100),
                                     s \<lparr> wallets := ws \<rparr>))
                             else (VerifyOk (w_balance wallet) (div64 (v_amount pd) 100), s)))))"

definition paystackWebhook :: "runtime \<Rightarrow> db \<Rightarrow> string option \<Rightarrow> webhookBody \<Rightarrow> response \<times> db" where
  "paystackWebhook rt s signature body =
     (let payload = stringify rt body in
      if \<not> verifyWebhookSignature rt payload signature
        then (Fail 400 ''Invalid signature.'', s)
      else if wb_event body = ''charge.success'' then
        (case wb_data body of
           None \<Rightarrow> (Fail 500 [], s)
         | Some data \<Rightarrow>
             (case findOne (byTransactionReference (d_reference data)) (wallets s) of
                None \<Rightarrow> (WebhookOk, s)
              | Some wallet \<Rightarrow>
                  (case find (\<lambda>t. tx_reference t = d_reference data) (w_transactions wallet) of
                     None \<Rightarrow> (WebhookOk, s)
                   | Some transaction \<Rightarrow>
                       if tx_status transaction = pending then
                         let wallet' = wallet
                               \<lparr> w_balance := add64 (w_balance wallet) (div64 (d_amount data) 100),
                                 w_transactions :=
                                   complete (d_reference data) (w_transactions wallet) \<rparr>
                         in
                         (case saveWallet (byTransactionReference (d_reference data)) wallet'
                                 (wallets s) of
                            None \<Rightarrow> (Fail 500 [], s)
                          | Some ws \<Rightarrow> (WebhookOk, s \<lparr> wallets := ws \<rparr>))
                       else (WebhookOk, s))))
      else (WebhookOk, s))"

section \<open>The ledger\<close>

text \<open>
  What the transactions of a wallet say its balance is: the completed credits less the
  completed debits, as the sum the specification writes.
\<close>

fun ledger :: "transaction list \<Rightarrow> rat" where
  "ledger [] = 0"
| "ledger (t # ts) =
     (if tx_status t = completed
      then (if tx_type t = credit then tx_amount t else - tx_amount t)
      else 0) + ledger ts"

definition balanced :: "wallet \<Rightarrow> bool" where
  "balanced w \<longleftrightarrow> w_balance w = ledger (w_transactions w)"

text \<open>
  The method \<^verbatim>\<open>addTransaction\<close> of the wallet schema (the controllers do not call it): it
  appends the transaction and, when it is completed, moves the balance by its amount.
\<close>

definition addTransaction :: "wallet \<Rightarrow> transaction \<Rightarrow> wallet" where
  "addTransaction w transaction =
     (let w1 = w \<lparr> w_transactions := w_transactions w @ [transaction] \<rparr> in
      if tx_status transaction = completed then
        if tx_type transaction = credit
        then w1 \<lparr> w_balance := add64 (w_balance w1) (tx_amount transaction) \<rparr>
        else w1 \<lparr> w_balance := sub64 (w_balance w1) (tx_amount transaction) \<rparr>
      else w1)"

section \<open>Sequences of calls\<close>

datatype call =
    FundWallet user nat "32 word" "rat option" "initData option"
  | VerifyWalletPayment "string option" "verifyData option"
  | PaystackWebhook "string option" webhookBody
  | PurchaseGift user nat purchaseBody
  | AddToGiftBox user "48 word" nat boxBody
  | RedeemGiftBox "48 word" nat string "user option"

fun handle :: "runtime \<Rightarrow> db \<Rightarrow> call \<Rightarrow> response \<times> db" where
  "handle rt s (FundWallet usr now rnd amount paymentData) = fundWallet s usr now rnd amount paymentData"
| "handle rt s (VerifyWalletPayment reference paymentData) = verifyWalletPayment s reference paymentData"
| "handle rt s (PaystackWebhook signature body) = paystackWebhook rt s signature body"
| "handle rt s (PurchaseGift usr now body) = purchaseGift s usr now body"
| "handle rt s (AddToGiftBox usr rnd now body) = addToGiftBox rt s usr rnd now body"
| "handle rt s (RedeemGiftBox rnd now code usr) = redeemGiftBox s rnd now code usr"

fun run :: "runtime \<Rightarrow> db \<Rightarrow> call list \<Rightarrow> db" where
  "run rt s [] = s"
| "run rt s (c # cs) = run rt (snd (handle rt s c)) cs"

definition emptyDb :: db where
  "emptyDb = \<lparr> wallets = [], gifts = [], giftBoxes = [], cards = [], websites = [] \<rparr>"

section \<open>Well-formed catalog entries\<close>

text \<open>Tracked stock is not negative.\<close>

definition stockOk :: "gift \<Rightarrow> bool" where
  "stockOk g \<longleftrightarrow> (case g_stock g of None \<Rightarrow> True | Some st \<Rightarrow> 0 \<le> st)"

section \<open>Notions of the specification\<close>

text \<open>
  A gift box has its redemption code when the field is set and not empty; the gift boxes
  of a database are well formed when each has its code, each passes schema validation,
  and no two share a code, which is what the hook, the validators and the unique index
  enforce on every write.
\<close>

definition hasCode :: "giftBox \<Rightarrow> bool" where
  "hasCode b \<longleftrightarrow> b_redemptionCode b \<noteq> None \<and> b_redemptionCode b \<noteq> Some []"

definition giftBoxesOk :: "giftBox list \<Rightarrow> bool" where
  "giftBoxesOk bs \<longleftrightarrow>
     list_all hasCode bs \<and> list_all giftBoxValid bs \<and> distinct (map b_redemptionCode bs)"

text \<open>The unredeemed boxes of a (sender, card) pair and of a (sender, website) pair.\<close>

definition openBoxOfCard :: "objectId \<Rightarrow> objectId \<Rightarrow> giftBox \<Rightarrow> bool" where
  "openBoxOfCard uid c b \<longleftrightarrow> b_senderId b = uid \<and> b_cardId b = Some c \<and> \<not> b_isRedeemed b"

definition openBoxOfWebsite :: "objectId \<Rightarrow> objectId \<Rightarrow> giftBox \<Rightarrow> bool" where
  "openBoxOfWebsite uid w b \<longleftrightarrow> b_senderId b = uid \<and> b_websiteId b = Some w \<and> \<not> b_isRedeemed b"

text \<open>
  Settlement, in the words of the specification. \<open>locate r s\<close> is the transaction a
  settlement call for reference \<open>r\<close> finds: the first with that reference, in the first
  wallet that holds one. \<open>settled t t'\<close>: the transaction is as it was, or it was pending
  and is now completed, nothing else changed. \<open>settlementFor r c\<close>: the call is a
  \<open>verifyWalletPayment\<close> or a \<open>paystackWebhook\<close> for the reference \<open>r\<close>.
\<close>

definition locate :: "string \<Rightarrow> db \<Rightarrow> transaction option" where
  "locate r s =
     (case findOne (byTransactionReference r) (wallets s) of
        None \<Rightarrow> None
      | Some w \<Rightarrow> find (\<lambda>t. tx_reference t = r) (w_transactions w))"

definition settled :: "transaction \<Rightarrow> transaction \<Rightarrow> bool" where
  "settled t t' \<longleftrightarrow> t' = t \<or> (tx_status t = pending \<and> t' = t \<lparr> tx_status := completed \<rparr>)"

definition settledWallet :: "wallet \<Rightarrow> wallet \<Rightarrow> bool" where
  "settledWallet w w' \<longleftrightarrow>
     w_userId w' = w_userId w \<and> list_all2 settled (w_transactions w) (w_transactions w')"

fun isSettlementCall :: "call \<Rightarrow> bool" where
  "isSettlementCall (VerifyWalletPayment reference paymentData) = True"
| "isSettlementCall (PaystackWebhook signature body) = True"
| "isSettlementCall _ = False"

fun settlementFor :: "string \<Rightarrow> call \<Rightarrow> bool" where
  "settlementFor r (VerifyWalletPayment reference paymentData) = (reference = Some r)"
| "settlementFor r (PaystackWebhook signature body) =
     (map_option d_reference (wb_data body) = Some r)"
| "settlementFor r _ = False"

section \<open>Example data\<close>

definition coffeeVoucher :: gift where
  "coffeeVoucher =
     \<lparr> g_id = 1, g_name = ''Coffee Voucher'', g_value = 1000, g_price = 500,
       g_isActive = True, g_stock = Some 3 \<rparr>"

definition eCard :: gift where
  "eCard =
     \<lparr> g_id = 2, g_name = ''E-Card'', g_value = 300, g_price = 200,
       g_isActive = True, g_stock = None \<rparr>"

definition alice :: user where
  "alice = \<lparr> u_id = 7, u_email = ''alice@example.com'' \<rparr>"

definition bob :: user where
  "bob = \<lparr> u_id = 8, u_email = ''bob@example.com'' \<rparr>"

definition aliceWallet :: wallet where
  "aliceWallet = \<lparr> w_userId = 7, w_balance = 1000, w_currency = ''NGN'', w_transactions = [] \<rparr>"

definition shop :: db where
  "shop = \<lparr> wallets = [aliceWallet], gifts = [coffeeVoucher, eCard], giftBoxes = [],
            cards = [\<lparr> c_id = 20, c_userId = 7, c_giftBox = None \<rparr>],
            websites = [\<lparr> s_id = 30, s_userId = 7, s_giftBox = None \<rparr>] \<rparr>"

text \<open>
  Requests to put the Coffee Voucher, with its id as \<^verbatim>\<open>toString()\<close> prints it and a number
  as quantity, into a box of card 20, of website 30, or of both.
\<close>

definition cardRequest :: "rat option \<Rightarrow> boxBody" where
  "cardRequest q =
     \<lparr> bb_giftId = Some ''000000000000000000000001'', bb_cardId = Id 20,
       bb_websiteId = Undefined, bb_quantity = map_option QNumber q,
       bb_recipientEmail = None \<rparr>"

definition websiteRequest :: "rat option \<Rightarrow> boxBody" where
  "websiteRequest q =
     \<lparr> bb_giftId = Some ''000000000000000000000001'', bb_cardId = Undefined,
       bb_websiteId = Id 30, bb_quantity = map_option QNumber q,
       bb_recipientEmail = None \<rparr>"

definition bothRequest :: "rat option \<Rightarrow> boxBody" where
  "bothRequest q =
     \<lparr> bb_giftId = Some ''000000000000000000000001'', bb_cardId = Id 20,
       bb_websiteId = Id 30, bb_quantity = map_option QNumber q,
       bb_recipientEmail = None \<rparr>"

definition noTargetRequest :: boxBody where
  "noTargetRequest =
     \<lparr> bb_giftId = Some ''000000000000000000000001'', bb_cardId = Undefined,
       bb_websiteId = Undefined, bb_quantity = None, bb_recipientEmail = None \<rparr>"

text \<open>
  A stand-in runtime for the examples: the digest is the key followed by the payload, the
  body is printed as event, reference and whole amount, a whole number is printed in
  decimal, and a text of decimal digits is cast to the number it writes.
\<close>

definition readDecimal :: "string \<Rightarrow> rat option" where
  "readDecimal t =
     (if t \<noteq> [] \<and> list_all (\<lambda>c. c \<in> set ''0123456789'') t
      then Some (of_nat (foldl (\<lambda>n c. 10 * n + (of_char c - 48)) 0 t))
      else None)"

definition testRuntime :: runtime where
  "testRuntime =
     \<lparr> hmacSha512Hex = (\<lambda>key payload. key @ ''|'' @ payload),
       stringify = (\<lambda>b. wb_event b @ ''/'' @
         (case wb_data b of None \<Rightarrow> ''null''
          | Some d \<Rightarrow> d_reference d @ ''/'' @ showInt (\<lfloor>d_amount d\<rfloor>))),
       secretKey = ''sk_test'',
       numberToString = (\<lambda>n. showInt \<lfloor>n\<rfloor>),
       castNumber = readDecimal \<rparr>"

text \<open>The box of card 20 after Alice has put \<open>q\<close> Coffee Vouchers into it at time 100, with the code drawn from the random bits 5.\<close>

definition aliceBox :: "rat \<Rightarrow> giftBox" where
  "aliceBox q =
     \<lparr> b_id = 1, b_cardId = Some 20, b_websiteId = None, b_senderId = 7,
       b_recipientEmail = None,
       b_gifts = [\<lparr> i_giftId = 1, i_quantity = q, i_purchasedAt = 100 \<rparr>],
       b_isRedeemed = False, b_redeemedAt = None,
       b_redemptionCode = Some ''000000000005'' \<rparr>"

definition boxedShop :: db where
  "boxedShop = snd (addToGiftBox testRuntime shop alice 5 100 (cardRequest (Some 2)))"



text \<open>
  A gift whose id, 10, is printed with a letter: \<^verbatim>\<open>00000000000000000000000a\<close>. A request
  for it names it by some text and gives some quantity, for a box of card 20; the box
  that results holds some line items.
\<close>

definition candle :: gift where
  "candle =
     \<lparr> g_id = 10, g_name = ''Candle'', g_value = 400, g_price = 250,
       g_isActive = True, g_stock = None \<rparr>"

definition candleShop :: db where
  "candleShop = shop \<lparr> gifts := [coffeeVoucher, eCard, candle] \<rparr>"

definition candleRequest :: "string \<Rightarrow> quantityField \<Rightarrow> boxBody" where
  "candleRequest giftId q =
     \<lparr> bb_giftId = Some giftId, bb_cardId = Id 20, bb_websiteId = Undefined,
       bb_quantity = Some q, bb_recipientEmail = None \<rparr>"

definition candleBox :: "giftBoxItem list \<Rightarrow> giftBox" where
  "candleBox items =
     \<lparr> b_id = 1, b_cardId = Some 20, b_websiteId = None, b_senderId = 7,
       b_recipientEmail = None, b_gifts = items,
       b_isRedeemed = False, b_redeemedAt = None,
       b_redemptionCode = Some ''000000000005'' \<rparr>"

text \<open>
  Alice asks to fund her wallet with 500; the gateway later reports the charge, signed, for
  the reference of that request: with the amount in kobo (50000), or with another amount.
\<close>

definition fundingCall :: call where
  "fundingCall =
     FundWallet alice 1700 1 (Some 500)
       (Some \<lparr> authorization_url = ''https://checkout.example/abc'',
               init_reference = generatePaymentReference 1700 1 \<rparr>)"

definition chargeSuccess :: "rat \<Rightarrow> webhookBody" where
  "chargeSuccess kobo =
     \<lparr> wb_event = ''charge.success'',
       wb_data = Some \<lparr> d_reference = generatePaymentReference 1700 1, d_amount = kobo \<rparr> \<rparr>"

definition signatureOf :: "webhookBody \<Rightarrow> string option" where
  "signatureOf body =
     Some (hmacSha512Hex testRuntime (secretKey testRuntime) (stringify testRuntime body))"

definition webhookCall :: "rat \<Rightarrow> call" where
  "webhookCall kobo = PaystackWebhook (signatureOf (chargeSuccess kobo)) (chargeSuccess kobo)"

definition verifyCall :: call where
  "verifyCall =
     VerifyWalletPayment (Some (generatePaymentReference 1700 1))
       (Some \<lparr> v_status = ''success'', v_amount = 50000 \<rparr>)"

text \<open>
  The database after Alice's funding request: her wallet with the one transaction, whose
  status and the balance vary with what follows.
\<close>

definition fundedDb :: "txStatus \<Rightarrow> rat \<Rightarrow> db" where
  "fundedDb st bal =
     \<lparr> wallets =
         [\<lparr> w_userId = 7, w_balance = bal, w_currency = ''NGN'',
            w_transactions =
              [\<lparr> tx_type = credit, tx_amount = 500, tx_reference = ''WC_1700_00000001'',
                 tx_description = ''Wallet funding'', tx_status = st, tx_createdAt = 1700 \<rparr>] \<rparr>],
       gifts = [], giftBoxes = [], cards = [], websites = [] \<rparr>"

section \<open>Properties of the collections\<close>

declare digitsOf.simps [simp del]

declare bitLength.simps [simp del]

lemmas example_defs = shop_def alice_def bob_def aliceWallet_def coffeeVoucher_def eCard_def

subsection \<open>Rounding keeps the sign\<close>







text \<open>
  The arithmetic of the examples. The last four are the roundings that exact arithmetic
  does not share: \<^verbatim>\<open>0.1 * 3\<close> is above \<^verbatim>\<open>0.3\<close>, \<^verbatim>\<open>0.1 * 10\<close> is 1 although the double
  \<^verbatim>\<open>0.1\<close> is above a tenth, and \<^verbatim>\<open>0.1 + 0.2\<close> is not \<^verbatim>\<open>0.3\<close>.
\<close>

lemma number_facts:
  "mul64 500 1 = 500" "mul64 500 2 = 1000" "mul64 500 3 = 1500" "mul64 1000 2 = 2000"
  "sub64 1000 500 = 500" "sub64 1000 1000 = 0" "sub64 1 1 = 0"
  "add64 0 500 = 500" "add64 0 100 = 100" "add64 0 2000 = 2000"
  "div64 50000 100 = 500" "div64 10000 100 = 100"
  by code_simp+


subsection \<open>Collections\<close>

lemma findOne_Some: "findOne P xs = Some x \<Longrightarrow> P x \<and> x \<in> set xs"
  unfolding findOne_def by (induction xs) (auto split: if_splits)

lemma findOne_save: "findOne P xs = Some x \<Longrightarrow> P d \<Longrightarrow> findOne P (save P d xs) = Some d"
  unfolding findOne_def by (induction xs) (auto split: if_splits)


lemma set_save: "set (save P d xs) \<subseteq> insert d (set xs)"
  by (induction xs) auto

lemma length_save: "length (save P d xs) = length xs"
  by (induction xs) auto




lemma gifts_fundWallet: "gifts (snd (fundWallet s usr now rnd amount pd)) = gifts s"
  unfolding fundWallet_def
  by (simp split: option.splits prod.splits add: Let_def)

lemma gifts_verifyWalletPayment: "gifts (snd (verifyWalletPayment s r pd)) = gifts s"
  unfolding verifyWalletPayment_def
  by (simp split: option.splits add: Let_def)

lemma gifts_paystackWebhook: "gifts (snd (paystackWebhook rt s sig body)) = gifts s"
  unfolding paystackWebhook_def
  by (simp split: option.splits add: Let_def)

lemma gifts_findOrCreateGiftBox:
  "findOrCreateGiftBox s usr rnd body = Some (b, s1) \<Longrightarrow> gifts s1 = gifts s"
  unfolding findOrCreateGiftBox_def
  by (auto split: option.splits if_splits)

lemma gifts_addToGiftBox: "gifts (snd (addToGiftBox rt s usr rnd now body)) = gifts s"
  unfolding addToGiftBox_def
  by (auto split: option.splits simp: Let_def dest: gifts_findOrCreateGiftBox)

lemma gifts_redeemGiftBox: "gifts (snd (redeemGiftBox s rnd now code usr)) = gifts s"
  unfolding redeemGiftBox_def
  by (simp split: option.splits prod.splits add: Let_def)

lemma purchaseGift_cases:
  "gifts (snd (purchaseGift s usr now body)) = gifts s \<or>
   (\<exists>gift st quantity.
      findOne (byGiftId (pb_giftId body)) (gifts s) = Some gift \<and>
      g_stock gift = Some st \<and> quantity \<le> st \<and>
      quantity = requestedQuantity (pb_quantity body) \<and>
      gifts (snd (purchaseGift s usr now body)) =
        save (byGiftId (pb_giftId body)) (gift \<lparr> g_stock := Some (st - quantity) \<rparr>) (gifts s))"
  unfolding purchaseGift_def saveGift_def saveWallet_def
  by (auto split: option.splits simp: Let_def)

lemma stockOk_purchaseGift:
  assumes "\<forall>g \<in> set (gifts s). stockOk g"
  shows "\<forall>g \<in> set (gifts (snd (purchaseGift s usr now body))). stockOk g"
proof -
  from purchaseGift_cases[of s usr now body] show ?thesis
  proof
    assume "gifts (snd (purchaseGift s usr now body)) = gifts s"
    with assms show ?thesis by simp
  next
    assume "\<exists>gift st quantity.
      findOne (byGiftId (pb_giftId body)) (gifts s) = Some gift \<and>
      g_stock gift = Some st \<and> quantity \<le> st \<and>
      quantity = requestedQuantity (pb_quantity body) \<and>
      gifts (snd (purchaseGift s usr now body)) =
        save (byGiftId (pb_giftId body)) (gift \<lparr> g_stock := Some (st - quantity) \<rparr>) (gifts s)"
    then obtain gift st quantity where
      le: "quantity \<le> st" and
      eq: "gifts (snd (purchaseGift s usr now body)) =
        save (byGiftId (pb_giftId body)) (gift \<lparr> g_stock := Some (st - quantity) \<rparr>) (gifts s)"
      by blast
    have "stockOk (gift \<lparr> g_stock := Some (st - quantity) \<rparr>)"
      using le by (simp add: stockOk_def)
    with assms show ?thesis
      unfolding eq using set_save[of "byGiftId (pb_giftId body)" _ "gifts s"] by blast
  qed
qed

lemma stockOk_handle:
  assumes "\<forall>g \<in> set (gifts s). stockOk g"
  shows "\<forall>g \<in> set (gifts (snd (handle rt s c))). stockOk g"
  using assms stockOk_purchaseGift[OF assms]
  by (cases c)
     (simp_all add: gifts_fundWallet gifts_verifyWalletPayment gifts_paystackWebhook
        gifts_addToGiftBox gifts_redeemGiftBox)

lemma stockOk_run:
  "\<forall>g \<in> set (gifts s). stockOk g \<Longrightarrow> \<forall>g \<in> set (gifts (run rt s cs)). stockOk g"
proof (induction cs arbitrary: s)
  case Nil
  then show ?case by simp
next
  case (Cons c cs)
  from stockOk_handle[OF Cons.prems] have "\<forall>g \<in> set (gifts (snd (handle rt s c))). stockOk g" .
  from Cons.IH[OF this] show ?case by simp
qed

text \<open>
  C4. Tracked stock never becomes negative, after one purchase and after any sequence of
  calls. A purchase of an active gift for a quantity above its tracked stock answers
  ``Insufficient stock.'' and changes nothing; a successful purchase lowers tracked stock
  by exactly the quantity; a gift without the stock field never fails on the stock check
  and is left without a stock value.
\<close>

theorem purchaseGift_stock_never_negative:
  assumes inv: "\<forall>g \<in> set (gifts s). stockOk g"
    and gift: "findOne (byGiftId (pb_giftId body)) (gifts s) = Some gift"
    and active: "g_isActive gift"
  shows "(\<forall>g \<in> set (gifts (snd (purchaseGift s usr now body))). stockOk g) \<and>
         (\<forall>g \<in> set (gifts (run rt s cs)). stockOk g) \<and>
         (\<forall>st. g_stock gift = Some st \<and> st < requestedQuantity (pb_quantity body) \<longrightarrow>
            purchaseGift s usr now body = (Fail 400 ''Insufficient stock.'', s)) \<and>
         (\<forall>gift' q t b s'. purchaseGift s usr now body = (PurchaseOk gift' q t b, s') \<longrightarrow>
            q = requestedQuantity (pb_quantity body) \<and>
            findOne (byGiftId (pb_giftId body)) (gifts s') = Some gift' \<and>
            g_stock gift' = map_option (\<lambda>st. st - q) (g_stock gift)) \<and>
         (g_stock gift = None \<longrightarrow>
            fst (purchaseGift s usr now body) \<noteq> Fail 400 ''Insufficient stock.'' \<and>
            gifts (snd (purchaseGift s usr now body)) = gifts s)"
proof (intro conjI allI impI)
  show "\<forall>g \<in> set (gifts (snd (purchaseGift s usr now body))). stockOk g"
    by (rule stockOk_purchaseGift[OF inv])
  show "\<forall>g \<in> set (gifts (run rt s cs)). stockOk g"
    by (rule stockOk_run[OF inv])
next
  fix st assume a: "g_stock gift = Some st \<and> st < requestedQuantity (pb_quantity body)"
  have "stockOk gift" using inv findOne_Some[OF gift] by blast
  with a have "1 \<le> requestedQuantity (pb_quantity body)" by (simp add: stockOk_def)
  moreover have "isMongoId (pb_giftId body)"
    using findOne_Some[OF gift] by (cases "pb_giftId body") (auto simp: byGiftId_def)
  ultimately have "purchaseGiftValidator body"
    by (auto simp: purchaseGiftValidator_def requestedQuantity_def split: option.splits)
  then show "purchaseGift s usr now body = (Fail 400 ''Insufficient stock.'', s)"
    using gift active a unfolding purchaseGift_def by (simp add: Let_def)
next
  fix gift' q t b s'
  assume ok: "purchaseGift s usr now body = (PurchaseOk gift' q t b, s')"
  then show "q = requestedQuantity (pb_quantity body)"
    using gift unfolding purchaseGift_def
    by (auto simp: Let_def split: if_splits option.splits)
  have gP: "\<And>x. byGiftId (pb_giftId body) (gift \<lparr> g_stock := x \<rparr>)"
    using findOne_Some[OF gift] by (simp add: byGiftId_def)
  show "findOne (byGiftId (pb_giftId body)) (gifts s') = Some gift'"
    using ok gift findOne_save[OF gift gP] unfolding purchaseGift_def saveGift_def
    by (auto simp: Let_def split: if_splits option.splits)
  show "g_stock gift' = map_option (\<lambda>st. st - q) (g_stock gift)"
    using ok gift unfolding purchaseGift_def saveGift_def
    by (auto simp: Let_def split: if_splits option.splits)
next
  assume none: "g_stock gift = None"
  show "fst (purchaseGift s usr now body) \<noteq> Fail 400 ''Insufficient stock.''"
    using gift none unfolding purchaseGift_def
    by (auto simp: Let_def split: if_splits option.splits)
  show "gifts (snd (purchaseGift s usr now body)) = gifts s"
    using gift none unfolding purchaseGift_def
    by (auto simp: Let_def split: if_splits option.splits)
qed

text \<open>The three cases on the example catalog: too little stock, a purchase of two, a gift without stock.\<close>

theorem purchaseGift_stock_never_negative_witness:
  "list_all stockOk (gifts shop) \<and>
   purchaseGift shop alice 1700000000000 \<lparr> pb_giftId = Id 1, pb_quantity = Some 5 \<rparr> =
     (Fail 400 ''Insufficient stock.'', shop) \<and>
   findOne (byGiftId (Id 1))
     (gifts (snd (purchaseGift shop alice 1700000000000 \<lparr> pb_giftId = Id 1, pb_quantity = Some 2 \<rparr>))) =
     Some (coffeeVoucher \<lparr> g_stock := Some 1 \<rparr>) \<and>
   gifts (snd (purchaseGift shop alice 1700000000000 \<lparr> pb_giftId = Id 2, pb_quantity = None \<rparr>)) =
     gifts shop"
proof -
  let ?b5 = "\<lparr> pb_giftId = Id 1, pb_quantity = Some 5 \<rparr>"
  let ?b2 = "\<lparr> pb_giftId = Id 1, pb_quantity = Some 2 \<rparr>"
  let ?be = "\<lparr> pb_giftId = Id 2, pb_quantity = None \<rparr>"
  have inv: "\<forall>g \<in> set (gifts shop). stockOk g"
    by (simp add: example_defs stockOk_def)
  have g5: "findOne (byGiftId (pb_giftId ?b5)) (gifts shop) = Some coffeeVoucher"
    and g2: "findOne (byGiftId (pb_giftId ?b2)) (gifts shop) = Some coffeeVoucher"
    and ge: "findOne (byGiftId (pb_giftId ?be)) (gifts shop) = Some eCard"
    by (simp_all add: findOne_def byGiftId_def example_defs)
  have act: "g_isActive coffeeVoucher" "g_isActive eCard"
    by (simp_all add: example_defs)
  have low: "g_stock coffeeVoucher = Some 3 \<and> 3 < requestedQuantity (pb_quantity ?b5)"
    by (simp add: example_defs requestedQuantity_def)
  have none: "g_stock eCard = None" by (simp add: example_defs)
  obtain r s' where run2: "purchaseGift shop alice 1700000000000 ?b2 = (r, s')"
    by (cases "purchaseGift shop alice 1700000000000 ?b2")
  have r: "r = PurchaseOk (coffeeVoucher \<lparr> g_stock := Some 1 \<rparr>) 2 1000 0"
    using run2
    by (simp add: purchaseGift_def findOne_def byUserId_def byGiftId_def example_defs
        purchaseGiftValidator_def requestedQuantity_def saveWallet_def saveGift_def
        walletValid_def giftValid_def number_facts Let_def)
  note a = purchaseGift_stock_never_negative[OF inv g5 act(1), of alice 1700000000000 testRuntime "[]"]
  note b = purchaseGift_stock_never_negative[OF inv g2 act(1), of alice 1700000000000 testRuntime "[]"]
  note c = purchaseGift_stock_never_negative[OF inv ge act(2), of alice 1700000000000 testRuntime "[]"]
  have 1: "purchaseGift shop alice 1700000000000 ?b5 = (Fail 400 ''Insufficient stock.'', shop)"
    using a low by blast
  have "findOne (byGiftId (pb_giftId ?b2)) (gifts s') = Some (coffeeVoucher \<lparr> g_stock := Some 1 \<rparr>)"
    using b run2[unfolded r] by blast
  then have 2: "findOne (byGiftId (Id 1)) (gifts (snd (purchaseGift shop alice 1700000000000 ?b2))) =
      Some (coffeeVoucher \<lparr> g_stock := Some 1 \<rparr>)"
    using run2 by simp
  have 3: "gifts (snd (purchaseGift shop alice 1700000000000 ?be)) = gifts shop"
    using c none by blast
  from inv have "list_all stockOk (gifts shop)" by (simp add: list_all_iff)
  with 1 2 3 show ?thesis by blast
qed

text \<open>
  C10, as amended. For a user with no wallet, \<open>purchaseGift\<close> never succeeds and leaves the
  database as it was, so no wallet is created. The answer is ``Insufficient wallet
  balance.'' exactly when the request passes validation, the gift exists and is active,
  and the stock check passes; the validation, not-found and stock errors come first.
\<close>

theorem purchaseGift_without_wallet:
  assumes nowallet: "findOne (byUserId (u_id usr)) (wallets s) = None"
  shows "snd (purchaseGift s usr now body) = s \<and>
         (\<forall>g q t b. fst (purchaseGift s usr now body) \<noteq> PurchaseOk g q t b) \<and>
         (fst (purchaseGift s usr now body) = Fail 400 ''Insufficient wallet balance.'' \<longleftrightarrow>
            purchaseGiftValidator body \<and>
            (\<exists>gift. findOne (byGiftId (pb_giftId body)) (gifts s) = Some gift \<and>
               g_isActive gift \<and>
               (case g_stock gift of None \<Rightarrow> True
                | Some st \<Rightarrow> requestedQuantity (pb_quantity body) \<le> st)))"
  using nowallet unfolding purchaseGift_def
  by (auto simp: Let_def split: option.splits)

text \<open>Bob, who has no wallet, asks for an E-Card, which has no stock limit.\<close>

theorem purchaseGift_without_wallet_witness:
  "findOne (byUserId (u_id bob)) (wallets shop) = None \<and>
   purchaseGift shop bob 1700000000000 \<lparr> pb_giftId = Id 2, pb_quantity = None \<rparr> =
     (Fail 400 ''Insufficient wallet balance.'', shop)"
proof -
  let ?be = "\<lparr> pb_giftId = Id 2, pb_quantity = None \<rparr>"
  have h: "findOne (byUserId (u_id bob)) (wallets shop) = None"
    by (simp add: findOne_def byUserId_def example_defs)
  have v: "purchaseGiftValidator ?be" by (simp add: purchaseGiftValidator_def)
  have ge: "findOne (byGiftId (pb_giftId ?be)) (gifts shop) = Some eCard"
    by (simp add: findOne_def byGiftId_def example_defs)
  have e: "g_isActive eCard" "g_stock eCard = None" by (simp_all add: example_defs)
  have rhs: "purchaseGiftValidator ?be \<and>
            (\<exists>gift. findOne (byGiftId (pb_giftId ?be)) (gifts shop) = Some gift \<and>
               g_isActive gift \<and>
               (case g_stock gift of None \<Rightarrow> True
                | Some st \<Rightarrow> requestedQuantity (pb_quantity ?be) \<le> st))"
    using v ge e by simp
  note t = purchaseGift_without_wallet[OF h, of 1700000000000 ?be]
  from t have 1: "snd (purchaseGift shop bob 1700000000000 ?be) = shop" by (rule conjunct1)
  from t rhs have 2: "fst (purchaseGift shop bob 1700000000000 ?be) = Fail 400 ''Insufficient wallet balance.''"
    by blast
  from 1 2 h show ?thesis by (simp add: prod_eq_iff)
qed

text \<open>
  C10 as stated fails: Bob has no wallet and asks for five Coffee Vouchers of which three
  are in stock; the answer is ``Insufficient stock.'', not the balance error.
\<close>

theorem purchaseGift_without_wallet_counterexample:
  "findOne (byUserId (u_id bob)) (wallets shop) = None \<and>
   fst (purchaseGift shop bob 1700000000000 \<lparr> pb_giftId = Id 1, pb_quantity = Some 5 \<rparr>) =
     Fail 400 ''Insufficient stock.'' \<and>
   fst (purchaseGift shop bob 1700000000000 \<lparr> pb_giftId = Id 1, pb_quantity = Some 5 \<rparr>) \<noteq>
     Fail 400 ''Insufficient wallet balance.''"
  by (simp add: purchaseGift_def findOne_def byUserId_def byGiftId_def shop_def bob_def
      aliceWallet_def coffeeVoucher_def eCard_def purchaseGiftValidator_def requestedQuantity_def)


section \<open>Gift boxes: find-or-create and merge\<close>

lemma findOne_None_append:
  "findOne P xs = None \<Longrightarrow> P d \<Longrightarrow> findOne P (xs @ [d]) = Some d"
  unfolding findOne_def by (induction xs) (auto split: if_splits)

lemma save_append_new:
  "findOne P xs = None \<Longrightarrow> P x \<Longrightarrow> save P d (xs @ [x]) = xs @ [d]"
  unfolding findOne_def by (induction xs) (auto split: if_splits)

lemma map_save_same:
  "findOne P xs = Some x \<Longrightarrow> f d = f x \<Longrightarrow> map f (save P d xs) = map f xs"
  unfolding findOne_def by (induction xs) (auto split: if_splits)

lemma length_hexString: "length (hexString k n) = k"
  by (induction k n rule: hexString.induct) auto

lemma generateRedemptionCode_nonempty: "generateRedemptionCode rnd \<noteq> []"
proof -
  have "length (generateRedemptionCode rnd) = 12"
    by (simp add: generateRedemptionCode_def toUpperCase_def length_hexString)
  then show ?thesis by auto
qed

lemma preSave_fields:
  "b_id (preSave rnd b) = b_id b" "b_cardId (preSave rnd b) = b_cardId b"
  "b_websiteId (preSave rnd b) = b_websiteId b" "b_senderId (preSave rnd b) = b_senderId b"
  "b_gifts (preSave rnd b) = b_gifts b" "b_isRedeemed (preSave rnd b) = b_isRedeemed b"
  "b_redeemedAt (preSave rnd b) = b_redeemedAt b"
  by (simp_all add: preSave_def)

lemma preSave_hasCode: "hasCode (preSave rnd b)"
  by (simp add: preSave_def hasCode_def generateRedemptionCode_nonempty)

lemma preSave_keeps: "hasCode b \<Longrightarrow> preSave rnd b = b"
  by (simp add: preSave_def hasCode_def)

lemma openBoxFor_preSave: "openBoxFor uid c w (preSave rnd b) = openBoxFor uid c w b"
  by (simp add: openBoxFor_def preSave_fields)

lemma saveGiftBox_Some:
  "saveGiftBox P rnd doc boxes = Some (saved, boxes') \<Longrightarrow>
     saved = preSave rnd doc \<and> boxes' = save P saved boxes \<and> giftBoxValid doc"
  unfolding saveGiftBox_def by (auto simp: Let_def split: if_splits)

text \<open>The document that \<open>findOrCreateGiftBox\<close> hands to \<open>createGiftBox\<close>.\<close>

lemma findOrCreateGiftBox_Some:
  assumes "findOrCreateGiftBox s usr rnd body = Some (gb, s1)"
  shows "findOne (openBoxFor (u_id usr) (bb_cardId body) (bb_websiteId body)) (giftBoxes s1) = Some gb \<and>
         gifts s1 = gifts s \<and> wallets s1 = wallets s \<and>
         ((findOne (openBoxFor (u_id usr) (bb_cardId body) (bb_websiteId body)) (giftBoxes s) = Some gb \<and> s1 = s) \<or>
          (findOne (openBoxFor (u_id usr) (bb_cardId body) (bb_websiteId body)) (giftBoxes s) = None \<and>
           giftBoxes s1 = giftBoxes s @ [gb] \<and> b_gifts gb = [] \<and> hasCode gb \<and>
           b_cardId gb = idOf (bb_cardId body) \<and> b_websiteId gb = idOf (bb_websiteId body) \<and>
           b_id gb = newObjectId (map b_id (giftBoxes s)) \<and>
           b_redemptionCode gb \<notin> set (map b_redemptionCode (giftBoxes s))))"
proof (cases "findOne (openBoxFor (u_id usr) (bb_cardId body) (bb_websiteId body)) (giftBoxes s)")
  case (Some b)
  with assms show ?thesis by (simp add: findOrCreateGiftBox_def)
next
  case None
  let ?doc = "\<lparr> b_id = 0, b_cardId = idOf (bb_cardId body),
                    b_websiteId = idOf (bb_websiteId body), b_senderId = u_id usr,
                    b_recipientEmail = bb_recipientEmail body, b_gifts = [],
                    b_isRedeemed = False, b_redeemedAt = None, b_redemptionCode = None \<rparr>"
  from assms None obtain boxes where
    cr: "createGiftBox rnd ?doc (giftBoxes s) = Some (gb, boxes)"
    and s1: "giftBoxes s1 = boxes" "gifts s1 = gifts s" "wallets s1 = wallets s"
    by (auto simp: findOrCreateGiftBox_def split: option.splits if_splits)
  from cr have gb: "gb = preSave rnd (?doc \<lparr> b_id := newObjectId (map b_id (giftBoxes s)) \<rparr>)"
    and boxes: "boxes = giftBoxes s @ [gb]"
    and fresh: "b_redemptionCode gb \<notin> set (map b_redemptionCode (giftBoxes s))"
    by (auto simp: createGiftBox_def Let_def split: if_splits)
  have F: "openBoxFor (u_id usr) (bb_cardId body) (bb_websiteId body) gb"
    unfolding gb openBoxFor_preSave by (simp add: openBoxFor_def)
  have "findOne (openBoxFor (u_id usr) (bb_cardId body) (bb_websiteId body)) (giftBoxes s1) = Some gb"
    unfolding s1 boxes by (rule findOne_None_append[OF None F])
  moreover have "b_gifts gb = []" "b_cardId gb = idOf (bb_cardId body)"
    "b_websiteId gb = idOf (bb_websiteId body)" "b_id gb = newObjectId (map b_id (giftBoxes s))"
    unfolding gb by (simp_all add: preSave_fields)
  moreover have "hasCode gb" unfolding gb by (rule preSave_hasCode)
  ultimately show ?thesis using None s1 boxes fresh by simp
qed

lemma addToGiftBox_BoxOk:
  assumes "addToGiftBox rt s usr rnd now body = (BoxOk saved, s')"
  shows "\<exists>giftId gift gb s1 items.
           bb_giftId body = Some giftId \<and>
           addToGiftBoxValidator body \<and>
           \<not> (bb_cardId body = Undefined \<and> bb_websiteId body = Undefined) \<and>
           findOne (byGiftId (Id (parseObjectId giftId))) (gifts s) = Some gift \<and>
           g_isActive gift \<and>
           findOrCreateGiftBox s usr rnd body = Some (gb, s1) \<and>
           addItem rt giftId (requestedBoxQuantity (bb_quantity body)) now (b_gifts gb) =
             Some items \<and>
           saved = preSave rnd (gb \<lparr> b_gifts := items \<rparr>) \<and>
           giftBoxValid saved \<and>
           s' = s1 \<lparr> giftBoxes :=
             save (openBoxFor (u_id usr) (bb_cardId body) (bb_websiteId body)) saved (giftBoxes s1) \<rparr>"
  using assms unfolding addToGiftBox_def
  by (auto simp: Let_def giftBoxValid_def preSave_fields split: if_splits option.splits dest!: saveGiftBox_Some)

text \<open>
  C5, as amended. A request with neither \<open>cardId\<close> nor \<open>websiteId\<close> is refused with
  status 400 and changes nothing. Otherwise the box of a successful call references at
  least one of a card and a website: the card of the request when it names one, else its
  website. A box the call creates carries exactly the references of the request, so both
  when the request names both.
\<close>

theorem addToGiftBox_binds_a_target:
  "(bb_cardId body = Undefined \<and> bb_websiteId body = Undefined \<longrightarrow>
      (fst (addToGiftBox rt s usr rnd now body) = Errors400 \<or>
       fst (addToGiftBox rt s usr rnd now body) = Fail 400 ''Either cardId or websiteId is required.'') \<and>
      snd (addToGiftBox rt s usr rnd now body) = s) \<and>
   (\<forall>box s'. addToGiftBox rt s usr rnd now body = (BoxOk box, s') \<longrightarrow>
      (b_cardId box \<noteq> None \<or> b_websiteId box \<noteq> None) \<and>
      (bb_cardId body \<noteq> Undefined \<longrightarrow> b_cardId box = idOf (bb_cardId body)) \<and>
      (bb_cardId body = Undefined \<longrightarrow> b_websiteId box = idOf (bb_websiteId body)) \<and>
      (findOne (openBoxFor (u_id usr) (bb_cardId body) (bb_websiteId body)) (giftBoxes s) = None \<longrightarrow>
         b_cardId box = idOf (bb_cardId body) \<and> b_websiteId box = idOf (bb_websiteId body)))"
proof (intro conjI)
  show "bb_cardId body = Undefined \<and> bb_websiteId body = Undefined \<longrightarrow>
      (fst (addToGiftBox rt s usr rnd now body) = Errors400 \<or>
       fst (addToGiftBox rt s usr rnd now body) = Fail 400 ''Either cardId or websiteId is required.'') \<and>
      snd (addToGiftBox rt s usr rnd now body) = s"
    by (simp add: addToGiftBox_def Let_def split: option.splits)
next
  show "\<forall>box s'. addToGiftBox rt s usr rnd now body = (BoxOk box, s') \<longrightarrow>
      (b_cardId box \<noteq> None \<or> b_websiteId box \<noteq> None) \<and>
      (bb_cardId body \<noteq> Undefined \<longrightarrow> b_cardId box = idOf (bb_cardId body)) \<and>
      (bb_cardId body = Undefined \<longrightarrow> b_websiteId box = idOf (bb_websiteId body)) \<and>
      (findOne (openBoxFor (u_id usr) (bb_cardId body) (bb_websiteId body)) (giftBoxes s) = None \<longrightarrow>
         b_cardId box = idOf (bb_cardId body) \<and> b_websiteId box = idOf (bb_websiteId body))"
  proof (intro allI impI)
    fix box s'
    assume ok: "addToGiftBox rt s usr rnd now body = (BoxOk box, s')"
    from addToGiftBox_BoxOk[OF ok] obtain gb s1 items where
      valid: "addToGiftBoxValidator body"
      and some: "\<not> (bb_cardId body = Undefined \<and> bb_websiteId body = Undefined)"
      and foc: "findOrCreateGiftBox s usr rnd body = Some (gb, s1)"
      and box: "box = preSave rnd (gb \<lparr> b_gifts := items \<rparr>)"
      by blast
    have card: "b_cardId box = b_cardId gb" and web: "b_websiteId box = b_websiteId gb"
      unfolding box by (simp_all add: preSave_fields)
    from findOrCreateGiftBox_Some[OF foc] have
      F: "findOne (openBoxFor (u_id usr) (bb_cardId body) (bb_websiteId body)) (giftBoxes s1) = Some gb"
      and new: "findOne (openBoxFor (u_id usr) (bb_cardId body) (bb_websiteId body)) (giftBoxes s) = None \<Longrightarrow>
             b_cardId gb = idOf (bb_cardId body) \<and> b_websiteId gb = idOf (bb_websiteId body)"
      by auto
    from findOne_Some[OF F] have
      tgt: "if bb_cardId body \<noteq> Undefined then b_cardId gb = idOf (bb_cardId body)
            else b_websiteId gb = idOf (bb_websiteId body)"
      by (simp add: openBoxFor_def)
    have c: "bb_cardId body \<noteq> Undefined \<longrightarrow> b_cardId box = idOf (bb_cardId body)"
      using tgt card by simp
    have w: "bb_cardId body = Undefined \<longrightarrow> b_websiteId box = idOf (bb_websiteId body)"
      using tgt web by simp
    have "idOf (bb_cardId body) \<noteq> None" if "bb_cardId body \<noteq> Undefined"
      using that valid by (cases "bb_cardId body") (simp_all add: addToGiftBoxValidator_def)
    moreover have "idOf (bb_websiteId body) \<noteq> None" if "bb_websiteId body \<noteq> Undefined"
      using that valid by (cases "bb_websiteId body") (simp_all add: addToGiftBoxValidator_def)
    ultimately have one: "b_cardId box \<noteq> None \<or> b_websiteId box \<noteq> None"
      using c w some by (cases "bb_cardId body = Undefined") auto
    have n: "findOne (openBoxFor (u_id usr) (bb_cardId body) (bb_websiteId body)) (giftBoxes s) = None \<longrightarrow>
           b_cardId box = idOf (bb_cardId body) \<and> b_websiteId box = idOf (bb_websiteId body)"
      using new card web by simp
    from one c w n show "(b_cardId box \<noteq> None \<or> b_websiteId box \<noteq> None) \<and>
      (bb_cardId body \<noteq> Undefined \<longrightarrow> b_cardId box = idOf (bb_cardId body)) \<and>
      (bb_cardId body = Undefined \<longrightarrow> b_websiteId box = idOf (bb_websiteId body)) \<and>
      (findOne (openBoxFor (u_id usr) (bb_cardId body) (bb_websiteId body)) (giftBoxes s) = None \<longrightarrow>
         b_cardId box = idOf (bb_cardId body) \<and> b_websiteId box = idOf (bb_websiteId body))"
      by blast
  qed
qed

text \<open>A request without target is refused; a request for card 20 yields a box of the card alone.\<close>

theorem addToGiftBox_binds_a_target_witness:
  "fst (addToGiftBox testRuntime shop alice 5 100 noTargetRequest) =
     Fail 400 ''Either cardId or websiteId is required.'' \<and>
   snd (addToGiftBox testRuntime shop alice 5 100 noTargetRequest) = shop \<and>
   fst (addToGiftBox testRuntime shop alice 5 100 (cardRequest (Some 2))) = BoxOk (aliceBox 2) \<and>
   b_cardId (aliceBox 2) = Some 20 \<and> b_websiteId (aliceBox 2) = None"
proof -
  have none: "bb_cardId noTargetRequest = Undefined \<and> bb_websiteId noTargetRequest = Undefined"
    by (simp add: noTargetRequest_def)
  have r0: "fst (addToGiftBox testRuntime shop alice 5 100 noTargetRequest) \<noteq> Errors400"
    by code_simp
  obtain r s' where run: "addToGiftBox testRuntime shop alice 5 100 (cardRequest (Some 2)) = (r, s')"
    by (cases "addToGiftBox testRuntime shop alice 5 100 (cardRequest (Some 2))")
  have "fst (addToGiftBox testRuntime shop alice 5 100 (cardRequest (Some 2))) = BoxOk (aliceBox 2)"
    by code_simp
  with run have ok: "addToGiftBox testRuntime shop alice 5 100 (cardRequest (Some 2)) = (BoxOk (aliceBox 2), s')"
    by simp
  have card: "bb_cardId (cardRequest (Some 2)) \<noteq> Undefined" "idOf (bb_cardId (cardRequest (Some 2))) = Some 20"
    and new: "findOne (openBoxFor (u_id alice) (bb_cardId (cardRequest (Some 2)))
                 (bb_websiteId (cardRequest (Some 2)))) (giftBoxes shop) = None"
    and web: "idOf (bb_websiteId (cardRequest (Some 2))) = None"
    by (simp_all add: cardRequest_def findOne_def example_defs)
  note a = addToGiftBox_binds_a_target[where body = noTargetRequest and rt = testRuntime
      and s = shop and usr = alice and rnd = 5 and now = 100]
  note b = addToGiftBox_binds_a_target[where body = "cardRequest (Some 2)" and rt = testRuntime
      and s = shop and usr = alice and rnd = 5 and now = 100]
  from a none r0 have 1: "fst (addToGiftBox testRuntime shop alice 5 100 noTargetRequest) =
     Fail 400 ''Either cardId or websiteId is required.''"
    and 2: "snd (addToGiftBox testRuntime shop alice 5 100 noTargetRequest) = shop"
    by blast+
  from b ok new have "b_cardId (aliceBox 2) = idOf (bb_cardId (cardRequest (Some 2))) \<and>
      b_websiteId (aliceBox 2) = idOf (bb_websiteId (cardRequest (Some 2)))"
    by blast
  with card web have 3: "b_cardId (aliceBox 2) = Some 20 \<and> b_websiteId (aliceBox 2) = None"
    by simp
  from 1 2 3 ok show ?thesis by simp
qed

text \<open>
  C5 as stated fails: a request that names card 20 and website 30, both Alice's, creates a
  box that references both.
\<close>

theorem addToGiftBox_binds_a_target_counterexample:
  "fst (addToGiftBox testRuntime shop alice 5 100 (bothRequest None)) =
     BoxOk \<lparr> b_id = 1, b_cardId = Some 20, b_websiteId = Some 30, b_senderId = 7,
       b_recipientEmail = None,
       b_gifts = [\<lparr> i_giftId = 1, i_quantity = 1, i_purchasedAt = 100 \<rparr>],
       b_isRedeemed = False, b_redeemedAt = None,
       b_redemptionCode = Some ''000000000005'' \<rparr>"
  by code_simp

lemma openBoxFor_card: "openBoxFor uid (Id c) w = openBoxOfCard uid c"
  by (rule ext) (simp add: openBoxFor_def openBoxOfCard_def)

lemma openBoxFor_website: "openBoxFor uid Undefined (Id w) = openBoxOfWebsite uid w"
  by (rule ext) (simp add: openBoxFor_def openBoxOfWebsite_def)

lemma addToGiftBox_reuse:
  assumes found: "findOne (openBoxFor (u_id usr) (bb_cardId body) (bb_websiteId body)) (giftBoxes s) = Some box"
    and code: "hasCode box"
    and ok: "addToGiftBox rt s usr rnd now body = (BoxOk box', s')"
  shows "box' = box \<lparr> b_gifts := b_gifts box' \<rparr> \<and>
         s' = s \<lparr> giftBoxes := save (openBoxFor (u_id usr) (bb_cardId body) (bb_websiteId body)) box' (giftBoxes s) \<rparr>"
proof -
  from addToGiftBox_BoxOk[OF ok] obtain gb s1 items where
    foc: "findOrCreateGiftBox s usr rnd body = Some (gb, s1)"
    and box': "box' = preSave rnd (gb \<lparr> b_gifts := items \<rparr>)"
    and s': "s' = s1 \<lparr> giftBoxes :=
             save (openBoxFor (u_id usr) (bb_cardId body) (bb_websiteId body)) box' (giftBoxes s1) \<rparr>"
    by blast
  from foc found have gb: "gb = box" "s1 = s"
    by (simp_all add: findOrCreateGiftBox_def)
  have "hasCode (box \<lparr> b_gifts := items \<rparr>)"
    using code by (simp add: hasCode_def)
  from preSave_keeps[OF this] box' gb show ?thesis using s' by simp
qed

lemma addToGiftBox_reuse_pair:
  assumes pair: "(bb_cardId body = Id c \<and>
                  findOne (openBoxOfCard (u_id usr) c) (giftBoxes s) = Some box) \<or>
                 (bb_cardId body = Undefined \<and> bb_websiteId body = Id w \<and>
                  findOne (openBoxOfWebsite (u_id usr) w) (giftBoxes s) = Some box)"
    and code: "hasCode box"
    and ok: "addToGiftBox rt s usr rnd now body = (BoxOk box', s')"
  shows "b_id box' = b_id box \<and> b_redemptionCode box' = b_redemptionCode box \<and>
         map b_id (giftBoxes s') = map b_id (giftBoxes s) \<and>
         map b_redemptionCode (giftBoxes s') = map b_redemptionCode (giftBoxes s)"
proof -
  let ?F = "openBoxFor (u_id usr) (bb_cardId body) (bb_websiteId body)"
  from pair have found: "findOne ?F (giftBoxes s) = Some box"
    by (auto simp: openBoxFor_card openBoxFor_website)
  from addToGiftBox_reuse[OF found code ok] have
    b: "box' = box \<lparr> b_gifts := b_gifts box' \<rparr>"
    and s': "giftBoxes s' = save ?F box' (giftBoxes s)"
    by simp_all
  have 1: "b_id box' = b_id box" by (subst b) simp
  have 2: "b_redemptionCode box' = b_redemptionCode box" by (subst b) simp
  from map_save_same[OF found 1] map_save_same[OF found 2] 1 2 s'
  show ?thesis by simp
qed

text \<open>The example of the specification, with the id of the gift in lower case.\<close>

lemma boxedShop_box: "findOne (openBoxOfCard (u_id alice) 20) (giftBoxes boxedShop) = Some (aliceBox 2)"
  by code_simp

lemma boxedShop_again:
  "fst (addToGiftBox testRuntime boxedShop alice 6 200 (cardRequest (Some 3))) = BoxOk (aliceBox 5)"
  by code_simp

text \<open>
  Two adds of one gift, with numbers as quantities, to line items that hold none of it:
  the first appends an item; the second raises that item when the text of the request is
  the id as \<^verbatim>\<open>toString()\<close> prints it, and appends a second item when it is not.
\<close>

lemma find_append_last:
  "find P xs = None \<Longrightarrow> find P (xs @ [x]) = (if P x then Some x else None)"
  by (induction xs) (auto split: if_splits)

lemma raiseFirst_append_last:
  "find (byGiftIdText giftId) xs = None \<Longrightarrow> byGiftIdText giftId x \<Longrightarrow>
     raiseFirst rt giftId (QNumber q) (xs @ [x]) =
       Some (xs @ [x \<lparr> i_quantity := add64 (i_quantity x) q \<rparr>])"
  by (induction xs) (auto simp: plusAssign_def split: if_splits)

lemma addItem_new:
  "find (byGiftIdText giftId) items = None \<Longrightarrow>
     addItem rt giftId (QNumber q) t items =
       Some (items @ [\<lparr> i_giftId = parseObjectId giftId, i_quantity = q, i_purchasedAt = t \<rparr>])"
  by (simp add: addItem_def castQuantity_def)

lemma addItem_again:
  assumes none: "find (byGiftIdText giftId) items = None"
  shows "addItem rt giftId (QNumber q2) t2
           (items @ [\<lparr> i_giftId = parseObjectId giftId, i_quantity = q1, i_purchasedAt = t1 \<rparr>]) =
         Some (if objectIdToString (parseObjectId giftId) = giftId
               then items @ [\<lparr> i_giftId = parseObjectId giftId, i_quantity = add64 q1 q2,
                                i_purchasedAt = t1 \<rparr>]
               else items @ [\<lparr> i_giftId = parseObjectId giftId, i_quantity = q1,
                                i_purchasedAt = t1 \<rparr>,
                              \<lparr> i_giftId = parseObjectId giftId, i_quantity = q2,
                                i_purchasedAt = t2 \<rparr>])"
proof (cases "objectIdToString (parseObjectId giftId) = giftId")
  case True
  let ?x = "\<lparr> i_giftId = parseObjectId giftId, i_quantity = q1, i_purchasedAt = t1 \<rparr>"
  have P: "byGiftIdText giftId ?x" using True by (simp add: byGiftIdText_def)
  from find_append_last[OF none, of ?x] P
  have "find (byGiftIdText giftId) (items @ [?x]) = Some ?x" by simp
  with raiseFirst_append_last[OF none P, of rt q2] True show ?thesis
    by (simp add: addItem_def)
next
  case False
  let ?x = "\<lparr> i_giftId = parseObjectId giftId, i_quantity = q1, i_purchasedAt = t1 \<rparr>"
  have P: "\<not> byGiftIdText giftId ?x" using False by (simp add: byGiftIdText_def)
  from find_append_last[OF none, of ?x] P
  have "find (byGiftIdText giftId) (items @ [?x]) = None" by simp
  with False show ?thesis
    by (simp add: addItem_def castQuantity_def)
qed

text \<open>
  C6 (two adds of the same gift give one line item with the summed quantity) does not
  hold of the code. The Candle has the id 10, which \<^verbatim>\<open>toString()\<close> prints as
  \<^verbatim>\<open>00000000000000000000000a\<close>. A request that writes this id with the letter in upper
  case passes \<^verbatim>\<open>isMongoId()\<close> and finds the gift, but the line item it has added is not
  found by the next such request, because the printed id differs from the text: two adds,
  of 2 and of 3, leave two line items. Written in lower case, the same two adds leave one
  item of 5. And the quantity is not validated: after an add of the number 2, an add of
  the string \<^verbatim>\<open>"3"\<close> appends the string to the printed quantity and leaves one item of 23.
\<close>

theorem addToGiftBox_splits_line_items:
  "isMongoIdText ''00000000000000000000000A'' \<and>
   parseObjectId ''00000000000000000000000A'' = g_id candle \<and>
   objectIdToString (g_id candle) = ''00000000000000000000000a'' \<and>
   fst (addToGiftBox testRuntime candleShop alice 5 100
          (candleRequest ''00000000000000000000000A'' (QNumber 2))) =
     BoxOk (candleBox [\<lparr> i_giftId = 10, i_quantity = 2, i_purchasedAt = 100 \<rparr>]) \<and>
   fst (addToGiftBox testRuntime
          (snd (addToGiftBox testRuntime candleShop alice 5 100
                  (candleRequest ''00000000000000000000000A'' (QNumber 2))))
          alice 6 200 (candleRequest ''00000000000000000000000A'' (QNumber 3))) =
     BoxOk (candleBox [\<lparr> i_giftId = 10, i_quantity = 2, i_purchasedAt = 100 \<rparr>,
                       \<lparr> i_giftId = 10, i_quantity = 3, i_purchasedAt = 200 \<rparr>]) \<and>
   fst (addToGiftBox testRuntime
          (snd (addToGiftBox testRuntime candleShop alice 5 100
                  (candleRequest ''00000000000000000000000a'' (QNumber 2))))
          alice 6 200 (candleRequest ''00000000000000000000000a'' (QNumber 3))) =
     BoxOk (candleBox [\<lparr> i_giftId = 10, i_quantity = 5, i_purchasedAt = 100 \<rparr>]) \<and>
   fst (addToGiftBox testRuntime
          (snd (addToGiftBox testRuntime candleShop alice 5 100
                  (candleRequest ''00000000000000000000000a'' (QNumber 2))))
          alice 6 200 (candleRequest ''00000000000000000000000a'' (QText ''3''))) =
     BoxOk (candleBox [\<lparr> i_giftId = 10, i_quantity = 23, i_purchasedAt = 100 \<rparr>])"
  by code_simp

section \<open>Gift boxes: codes are kept\<close>

lemma list_all_save: "list_all Q xs \<Longrightarrow> Q d \<Longrightarrow> list_all Q (save P d xs)"
  by (induction xs) auto

lemma giftBoxes_fundWallet: "giftBoxes (snd (fundWallet s usr now rnd amount pd)) = giftBoxes s"
  unfolding fundWallet_def
  by (simp split: option.splits prod.splits add: Let_def)

lemma giftBoxes_verifyWalletPayment: "giftBoxes (snd (verifyWalletPayment s r pd)) = giftBoxes s"
  unfolding verifyWalletPayment_def
  by (simp split: option.splits add: Let_def)

lemma giftBoxes_paystackWebhook: "giftBoxes (snd (paystackWebhook rt s sig body)) = giftBoxes s"
  unfolding paystackWebhook_def
  by (simp split: option.splits add: Let_def)

lemma giftBoxes_purchaseGift: "giftBoxes (snd (purchaseGift s usr now body)) = giftBoxes s"
  unfolding purchaseGift_def
  by (simp split: option.splits add: Let_def)

text \<open>Saving a box that has its code keeps the codes of the collection.\<close>

lemma saveGiftBox_kept:
  assumes ok: "giftBoxesOk boxes"
    and found: "findOne P boxes = Some gb"
    and doc: "b_redemptionCode doc = b_redemptionCode gb"
    and sv: "saveGiftBox P rnd doc boxes = Some (saved, boxes')"
  shows "giftBoxesOk boxes' \<and> map b_redemptionCode boxes' = map b_redemptionCode boxes \<and>
         saved = doc \<and> boxes' = save P doc boxes"
proof -
  from findOne_Some[OF found] ok have "hasCode gb"
    by (auto simp: giftBoxesOk_def list_all_iff)
  with doc have hc: "hasCode doc" by (simp add: hasCode_def)
  from saveGiftBox_Some[OF sv] preSave_keeps[OF hc] have
    saved: "saved = doc" and boxes': "boxes' = save P doc boxes" and valid: "giftBoxValid doc"
    by simp_all
  have codes: "map b_redemptionCode boxes' = map b_redemptionCode boxes"
    unfolding boxes' by (rule map_save_same[OF found doc])
  have "list_all hasCode boxes'" "list_all giftBoxValid boxes'"
    unfolding boxes' using ok hc valid by (simp_all add: giftBoxesOk_def list_all_save)
  with codes ok saved boxes' show ?thesis by (simp add: giftBoxesOk_def)
qed

lemma findOrCreateGiftBox_kept:
  assumes ok: "giftBoxesOk (giftBoxes s)"
    and foc: "findOrCreateGiftBox s usr rnd body = Some (gb, s1)"
  shows "giftBoxesOk (giftBoxes s1) \<and>
         (\<exists>ys. map b_redemptionCode (giftBoxes s1) = map b_redemptionCode (giftBoxes s) @ ys)"
proof -
  from findOrCreateGiftBox_Some[OF foc] show ?thesis
  proof (elim conjE disjE)
    assume "s1 = s"
    with ok show ?thesis by simp
  next
    assume new: "giftBoxes s1 = giftBoxes s @ [gb]" "b_gifts gb = []" "hasCode gb"
      "b_redemptionCode gb \<notin> set (map b_redemptionCode (giftBoxes s))"
    then have "giftBoxesOk (giftBoxes s1)"
      using ok by (simp add: giftBoxesOk_def giftBoxValid_def)
    with new show ?thesis by simp
  qed
qed

lemma addToGiftBox_giftBoxes_cases:
  "giftBoxes (snd (addToGiftBox rt s usr rnd now body)) = giftBoxes s \<or>
   (\<exists>gb s1. findOrCreateGiftBox s usr rnd body = Some (gb, s1) \<and>
      (giftBoxes (snd (addToGiftBox rt s usr rnd now body)) = giftBoxes s1 \<or>
       (\<exists>x saved. saveGiftBox (openBoxFor (u_id usr) (bb_cardId body) (bb_websiteId body)) rnd
             (gb \<lparr> b_gifts := x \<rparr>) (giftBoxes s1) =
           Some (saved, giftBoxes (snd (addToGiftBox rt s usr rnd now body))))))"
  unfolding addToGiftBox_def
  by (auto simp: Let_def split: option.splits if_splits)

lemma addToGiftBox_kept:
  assumes ok: "giftBoxesOk (giftBoxes s)"
  shows "giftBoxesOk (giftBoxes (snd (addToGiftBox rt s usr rnd now body))) \<and>
         (\<exists>ys. map b_redemptionCode (giftBoxes (snd (addToGiftBox rt s usr rnd now body))) =
                map b_redemptionCode (giftBoxes s) @ ys)"
proof -
  let ?s' = "snd (addToGiftBox rt s usr rnd now body)"
  let ?F = "openBoxFor (u_id usr) (bb_cardId body) (bb_websiteId body)"
  from addToGiftBox_giftBoxes_cases[of rt s usr rnd now body] show ?thesis
  proof (elim disjE exE conjE)
    assume "giftBoxes ?s' = giftBoxes s"
    with ok show ?thesis by simp
  next
    fix gb s1
    assume foc: "findOrCreateGiftBox s usr rnd body = Some (gb, s1)"
      and eq: "giftBoxes ?s' = giftBoxes s1"
    from findOrCreateGiftBox_kept[OF ok foc] eq show ?thesis by simp
  next
    fix gb s1 x saved
    assume foc: "findOrCreateGiftBox s usr rnd body = Some (gb, s1)"
      and sv: "saveGiftBox ?F rnd (gb \<lparr> b_gifts := x \<rparr>) (giftBoxes s1) = Some (saved, giftBoxes ?s')"
    from findOrCreateGiftBox_kept[OF ok foc] obtain ys where
      ok1: "giftBoxesOk (giftBoxes s1)"
      and pre: "map b_redemptionCode (giftBoxes s1) = map b_redemptionCode (giftBoxes s) @ ys"
      by blast
    from findOrCreateGiftBox_Some[OF foc] have found: "findOne ?F (giftBoxes s1) = Some gb"
      by simp
    have "b_redemptionCode (gb \<lparr> b_gifts := x \<rparr>) = b_redemptionCode gb" by simp
    from saveGiftBox_kept[OF ok1 found this sv] have
      "giftBoxesOk (giftBoxes ?s')"
      "map b_redemptionCode (giftBoxes ?s') = map b_redemptionCode (giftBoxes s1)"
      by blast+
    with pre show ?thesis by metis
  qed
qed

lemma redeemGiftBox_giftBoxes_cases:
  "giftBoxes (snd (redeemGiftBox s rnd now code usr)) = giftBoxes s \<or>
   (\<exists>gb saved. findOne (byRedemptionCode code) (giftBoxes s) = Some gb \<and>
      saveGiftBox (byRedemptionCode code) rnd
        (gb \<lparr> b_isRedeemed := True, b_redeemedAt := Some now \<rparr>) (giftBoxes s) =
      Some (saved, giftBoxes (snd (redeemGiftBox s rnd now code usr))))"
  unfolding redeemGiftBox_def
  by (auto simp: Let_def split: option.splits if_splits prod.splits)

lemma redeemGiftBox_kept:
  assumes ok: "giftBoxesOk (giftBoxes s)"
  shows "giftBoxesOk (giftBoxes (snd (redeemGiftBox s rnd now code usr))) \<and>
         map b_redemptionCode (giftBoxes (snd (redeemGiftBox s rnd now code usr))) =
           map b_redemptionCode (giftBoxes s)"
proof -
  from redeemGiftBox_giftBoxes_cases[of s rnd now code usr] show ?thesis
  proof (elim disjE exE conjE)
    assume "giftBoxes (snd (redeemGiftBox s rnd now code usr)) = giftBoxes s"
    with ok show ?thesis by simp
  next
    fix gb saved
    assume found: "findOne (byRedemptionCode code) (giftBoxes s) = Some gb"
      and sv: "saveGiftBox (byRedemptionCode code) rnd
        (gb \<lparr> b_isRedeemed := True, b_redeemedAt := Some now \<rparr>) (giftBoxes s) =
        Some (saved, giftBoxes (snd (redeemGiftBox s rnd now code usr)))"
    have "b_redemptionCode (gb \<lparr> b_isRedeemed := True, b_redeemedAt := Some now \<rparr>) =
            b_redemptionCode gb" by simp
    from saveGiftBox_kept[OF ok found this sv] show ?thesis by blast
  qed
qed

lemma handle_kept:
  assumes ok: "giftBoxesOk (giftBoxes s)"
  shows "giftBoxesOk (giftBoxes (snd (handle rt s c))) \<and>
         (\<exists>ys. map b_redemptionCode (giftBoxes (snd (handle rt s c))) =
                map b_redemptionCode (giftBoxes s) @ ys)"
  using ok addToGiftBox_kept[OF ok, of rt] redeemGiftBox_kept[OF ok]
  by (cases c)
     (simp_all add: giftBoxes_fundWallet giftBoxes_verifyWalletPayment giftBoxes_paystackWebhook
        giftBoxes_purchaseGift)

lemma run_kept:
  "giftBoxesOk (giftBoxes s) \<Longrightarrow>
     giftBoxesOk (giftBoxes (run rt s cs)) \<and>
     (\<exists>ys. map b_redemptionCode (giftBoxes (run rt s cs)) = map b_redemptionCode (giftBoxes s) @ ys)"
proof (induction cs arbitrary: s)
  case Nil
  then show ?case by simp
next
  case (Cons c cs)
  from handle_kept[OF Cons.prems, of rt c] obtain ys where
    ok1: "giftBoxesOk (giftBoxes (snd (handle rt s c)))"
    and p1: "map b_redemptionCode (giftBoxes (snd (handle rt s c))) =
               map b_redemptionCode (giftBoxes s) @ ys"
    by blast
  from Cons.IH[OF ok1] obtain zs where
    ok2: "giftBoxesOk (giftBoxes (run rt (snd (handle rt s c)) cs))"
    and p2: "map b_redemptionCode (giftBoxes (run rt (snd (handle rt s c)) cs)) =
               map b_redemptionCode (giftBoxes (snd (handle rt s c))) @ zs"
    by blast
  from ok2 p1 p2 show ?case by simp
qed


text \<open>
  C7, as amended. On well-formed gift boxes: when the sender has an unredeemed box for the
  card of the request, or the request names no card and the sender has an unredeemed box
  for its website, a successful \<open>addToGiftBox\<close> returns that box, with its identity and
  its redemption code, and creates no box: the identities and codes of the stored boxes
  are as before. Over any sequence of calls the codes of the stored boxes stay as they
  are, new boxes only adding their own: a code is set when its box is created and never
  generated again.
\<close>

theorem addToGiftBox_reuses_open_box:
  assumes ok: "giftBoxesOk (giftBoxes s)"
  shows "(\<forall>box box' s'.
           ((bb_cardId body = Id c \<and>
             findOne (openBoxOfCard (u_id usr) c) (giftBoxes s) = Some box) \<or>
            (bb_cardId body = Undefined \<and> bb_websiteId body = Id w \<and>
             findOne (openBoxOfWebsite (u_id usr) w) (giftBoxes s) = Some box)) \<and>
           addToGiftBox rt s usr rnd now body = (BoxOk box', s') \<longrightarrow>
           b_id box' = b_id box \<and> b_redemptionCode box' = b_redemptionCode box \<and>
           map b_id (giftBoxes s') = map b_id (giftBoxes s) \<and>
           map b_redemptionCode (giftBoxes s') = map b_redemptionCode (giftBoxes s)) \<and>
         giftBoxesOk (giftBoxes (run rt s cs)) \<and>
         (\<exists>ys. map b_redemptionCode (giftBoxes (run rt s cs)) =
                map b_redemptionCode (giftBoxes s) @ ys)"
proof -
  have reuse: "b_id box' = b_id box \<and> b_redemptionCode box' = b_redemptionCode box \<and>
           map b_id (giftBoxes s') = map b_id (giftBoxes s) \<and>
           map b_redemptionCode (giftBoxes s') = map b_redemptionCode (giftBoxes s)"
    if pair: "(bb_cardId body = Id c \<and>
             findOne (openBoxOfCard (u_id usr) c) (giftBoxes s) = Some box) \<or>
            (bb_cardId body = Undefined \<and> bb_websiteId body = Id w \<and>
             findOne (openBoxOfWebsite (u_id usr) w) (giftBoxes s) = Some box)"
      and call: "addToGiftBox rt s usr rnd now body = (BoxOk box', s')"
    for box box' s'
  proof -
    from pair have "box \<in> set (giftBoxes s)"
      using findOne_Some[of "openBoxOfCard (u_id usr) c" "giftBoxes s" box]
        findOne_Some[of "openBoxOfWebsite (u_id usr) w" "giftBoxes s" box]
      by blast
    with ok have "hasCode box" by (auto simp: giftBoxesOk_def list_all_iff)
    from addToGiftBox_reuse_pair[OF pair this call] show ?thesis .
  qed
  have 1: "\<forall>box box' s'.
           ((bb_cardId body = Id c \<and>
             findOne (openBoxOfCard (u_id usr) c) (giftBoxes s) = Some box) \<or>
            (bb_cardId body = Undefined \<and> bb_websiteId body = Id w \<and>
             findOne (openBoxOfWebsite (u_id usr) w) (giftBoxes s) = Some box)) \<and>
           addToGiftBox rt s usr rnd now body = (BoxOk box', s') \<longrightarrow>
           b_id box' = b_id box \<and> b_redemptionCode box' = b_redemptionCode box \<and>
           map b_id (giftBoxes s') = map b_id (giftBoxes s) \<and>
           map b_redemptionCode (giftBoxes s') = map b_redemptionCode (giftBoxes s)"
  proof (intro allI impI)
    fix box box' s'
    assume a: "((bb_cardId body = Id c \<and>
             findOne (openBoxOfCard (u_id usr) c) (giftBoxes s) = Some box) \<or>
            (bb_cardId body = Undefined \<and> bb_websiteId body = Id w \<and>
             findOne (openBoxOfWebsite (u_id usr) w) (giftBoxes s) = Some box)) \<and>
           addToGiftBox rt s usr rnd now body = (BoxOk box', s')"
    from reuse[OF conjunct1[OF a] conjunct2[OF a]]
    show "b_id box' = b_id box \<and> b_redemptionCode box' = b_redemptionCode box \<and>
           map b_id (giftBoxes s') = map b_id (giftBoxes s) \<and>
           map b_redemptionCode (giftBoxes s') = map b_redemptionCode (giftBoxes s)" .
  qed
  from run_kept[OF ok, of rt cs] have 2: "giftBoxesOk (giftBoxes (run rt s cs))"
    and 3: "\<exists>ys. map b_redemptionCode (giftBoxes (run rt s cs)) =
                map b_redemptionCode (giftBoxes s) @ ys"
    by (rule conjunct1, rule conjunct2)
  show ?thesis
    apply (intro conjI)
      apply (rule 1)
     apply (rule 2)
    apply (rule 3)
    done
qed

text \<open>Alice adds three more vouchers to the box of card 20: the same box, the same code.\<close>

lemma boxedShop_ok: "giftBoxesOk (giftBoxes boxedShop)"
  by code_simp

theorem addToGiftBox_reuses_open_box_witness:
  "giftBoxesOk (giftBoxes boxedShop) \<and>
   findOne (openBoxOfCard (u_id alice) 20) (giftBoxes boxedShop) = Some (aliceBox 2) \<and>
   fst (addToGiftBox testRuntime boxedShop alice 6 200 (cardRequest (Some 3))) = BoxOk (aliceBox 5) \<and>
   b_id (aliceBox 5) = b_id (aliceBox 2) \<and>
   b_redemptionCode (aliceBox 5) = b_redemptionCode (aliceBox 2) \<and>
   map b_id (giftBoxes (snd (addToGiftBox testRuntime boxedShop alice 6 200 (cardRequest (Some 3))))) =
     map b_id (giftBoxes boxedShop)"
proof -
  obtain r s' where run: "addToGiftBox testRuntime boxedShop alice 6 200 (cardRequest (Some 3)) = (r, s')"
    by (cases "addToGiftBox testRuntime boxedShop alice 6 200 (cardRequest (Some 3))")
  with boxedShop_again have call:
    "addToGiftBox testRuntime boxedShop alice 6 200 (cardRequest (Some 3)) = (BoxOk (aliceBox 5), s')"
    by simp
  have pair: "(bb_cardId (cardRequest (Some 3)) = Id 20 \<and>
                findOne (openBoxOfCard (u_id alice) 20) (giftBoxes boxedShop) = Some (aliceBox 2)) \<or>
              (bb_cardId (cardRequest (Some 3)) = Undefined \<and> bb_websiteId (cardRequest (Some 3)) = Id 0 \<and>
                findOne (openBoxOfWebsite (u_id alice) 0) (giftBoxes boxedShop) = Some (aliceBox 2))"
    using boxedShop_box by (simp add: cardRequest_def)
  note t = addToGiftBox_reuses_open_box[OF boxedShop_ok, where body = "cardRequest (Some 3)"
      and c = 20 and usr = alice and w = 0 and rnd = 6 and now = 200 and rt = testRuntime
      and cs = "[]"]
  from t have "((bb_cardId (cardRequest (Some 3)) = Id 20 \<and>
                findOne (openBoxOfCard (u_id alice) 20) (giftBoxes boxedShop) = Some (aliceBox 2)) \<or>
              (bb_cardId (cardRequest (Some 3)) = Undefined \<and> bb_websiteId (cardRequest (Some 3)) = Id 0 \<and>
                findOne (openBoxOfWebsite (u_id alice) 0) (giftBoxes boxedShop) = Some (aliceBox 2))) \<and>
           addToGiftBox testRuntime boxedShop alice 6 200 (cardRequest (Some 3)) = (BoxOk (aliceBox 5), s') \<longrightarrow>
        b_id (aliceBox 5) = b_id (aliceBox 2) \<and>
        b_redemptionCode (aliceBox 5) = b_redemptionCode (aliceBox 2) \<and>
        map b_id (giftBoxes s') = map b_id (giftBoxes boxedShop) \<and>
        map b_redemptionCode (giftBoxes s') = map b_redemptionCode (giftBoxes boxedShop)"
    by (elim conjE allE)
  with pair call have "b_id (aliceBox 5) = b_id (aliceBox 2) \<and>
        b_redemptionCode (aliceBox 5) = b_redemptionCode (aliceBox 2) \<and>
        map b_id (giftBoxes s') = map b_id (giftBoxes boxedShop) \<and>
        map b_redemptionCode (giftBoxes s') = map b_redemptionCode (giftBoxes boxedShop)"
    by (elim impE) (rule conjI)
  with boxedShop_ok boxedShop_box call show ?thesis by simp
qed

text \<open>
  C7 as stated fails for a website when the request also names a card: Alice has an
  unredeemed box for website 30, and a request naming card 20 and website 30 creates a
  second one.
\<close>

theorem addToGiftBox_reuses_open_box_counterexample:
  "map_option b_id (findOne (openBoxOfWebsite (u_id alice) 30)
      (giftBoxes (snd (addToGiftBox testRuntime shop alice 5 100 (websiteRequest (Some 2)))))) = Some 1 \<and>
   fst (addToGiftBox testRuntime (snd (addToGiftBox testRuntime shop alice 5 100 (websiteRequest (Some 2))))
          alice 6 200 (bothRequest (Some 3))) =
     BoxOk \<lparr> b_id = 2, b_cardId = Some 20, b_websiteId = Some 30, b_senderId = 7,
       b_recipientEmail = None,
       b_gifts = [\<lparr> i_giftId = 1, i_quantity = 3, i_purchasedAt = 200 \<rparr>],
       b_isRedeemed = False, b_redeemedAt = None,
       b_redemptionCode = Some ''000000000006'' \<rparr> \<and>
   map b_id (filter (openBoxOfWebsite (u_id alice) 30)
     (giftBoxes (snd (addToGiftBox testRuntime (snd (addToGiftBox testRuntime shop alice 5 100 (websiteRequest (Some 2))))
          alice 6 200 (bothRequest (Some 3)))))) = [1, 2]"
  by code_simp

section \<open>redeemGiftBox\<close>














text \<open>The database after Alice's first add, written out.\<close>

lemma boxedShop_eq:
  "boxedShop = shop \<lparr> giftBoxes := [aliceBox 2],
                       cards := [\<lparr> c_id = 20, c_userId = 7, c_giftBox = Some 1 \<rparr>] \<rparr>"
  by code_simp


text \<open>
  The amended claim is about boxes whose gifts are all in the catalog. When a gift of the
  box has been deleted, the box is marked redeemed before the total is computed, the
  answer is status 500 and nobody is credited: here the Coffee Voucher is gone.
\<close>

lemma redeem_deleted_gift:
  "redeemGiftBox (boxedShop \<lparr> gifts := [eCard] \<rparr>) 9 300 ''000000000005'' (Some bob) =
     (Fail 500 ''Failed to redeem gift box.'',
      boxedShop \<lparr> gifts := [eCard],
                  giftBoxes := [(aliceBox 2) \<lparr> b_isRedeemed := True, b_redeemedAt := Some 300 \<rparr>] \<rparr>)"
  by (simp add: boxedShop_eq redeemGiftBox_def saveGiftBox_def preSave_def giftBoxValid_def
      findOne_def byRedemptionCode_def aliceBox_def example_defs Let_def)








section \<open>The webhook signature\<close>

lemma paystackWebhook_rejects:
  "\<not> verifyWebhookSignature rt (stringify rt body) signature \<Longrightarrow>
      paystackWebhook rt s signature body = (Fail 400 ''Invalid signature.'', s)"
  by (simp add: paystackWebhook_def Let_def)

text \<open>
  C8. The webhook handler goes on to the event only when the digest of the payload under
  the secret key equals the signature header: with any other header it answers status 400,
  ``Invalid signature.'', and the database is unchanged, so a changed database or any
  other answer means the two were equal. In particular a body that was altered while the
  signature of the original was kept, and whose digest therefore differs from that
  signature, is rejected and changes no balance and no transaction. The digest is the
  runtime's HMAC-SHA512, taken as a function; the payload is the re-serialised body.
\<close>

theorem paystackWebhook_checks_signature:
  "(\<not> verifyWebhookSignature rt (stringify rt body) signature \<longrightarrow>
      paystackWebhook rt s signature body = (Fail 400 ''Invalid signature.'', s)) \<and>
   (snd (paystackWebhook rt s signature body) \<noteq> s \<longrightarrow>
      signature = Some (hmacSha512Hex rt (secretKey rt) (stringify rt body))) \<and>
   (fst (paystackWebhook rt s signature body) \<noteq> Fail 400 ''Invalid signature.'' \<longrightarrow>
      signature = Some (hmacSha512Hex rt (secretKey rt) (stringify rt body))) \<and>
   (\<forall>original.
      signature = Some (hmacSha512Hex rt (secretKey rt) (stringify rt original)) \<and>
      hmacSha512Hex rt (secretKey rt) (stringify rt body) \<noteq>
        hmacSha512Hex rt (secretKey rt) (stringify rt original) \<longrightarrow>
      paystackWebhook rt s signature body = (Fail 400 ''Invalid signature.'', s))"
proof -
  have v: "verifyWebhookSignature rt (stringify rt body) signature \<longleftrightarrow>
           signature = Some (hmacSha512Hex rt (secretKey rt) (stringify rt body))"
    by (auto simp: verifyWebhookSignature_def Let_def)
  note r = paystackWebhook_rejects[of rt body signature s]
  have 1: "\<not> verifyWebhookSignature rt (stringify rt body) signature \<longrightarrow>
      paystackWebhook rt s signature body = (Fail 400 ''Invalid signature.'', s)"
    using r by blast
  have 2: "snd (paystackWebhook rt s signature body) \<noteq> s \<longrightarrow>
      signature = Some (hmacSha512Hex rt (secretKey rt) (stringify rt body))"
    using r v by (cases "verifyWebhookSignature rt (stringify rt body) signature") simp_all
  have 3: "fst (paystackWebhook rt s signature body) \<noteq> Fail 400 ''Invalid signature.'' \<longrightarrow>
      signature = Some (hmacSha512Hex rt (secretKey rt) (stringify rt body))"
    using r v by (cases "verifyWebhookSignature rt (stringify rt body) signature") simp_all
  have 4: "\<forall>original.
      signature = Some (hmacSha512Hex rt (secretKey rt) (stringify rt original)) \<and>
      hmacSha512Hex rt (secretKey rt) (stringify rt body) \<noteq>
        hmacSha512Hex rt (secretKey rt) (stringify rt original) \<longrightarrow>
      paystackWebhook rt s signature body = (Fail 400 ''Invalid signature.'', s)"
  proof (intro allI impI)
    fix original
    assume a: "signature = Some (hmacSha512Hex rt (secretKey rt) (stringify rt original)) \<and>
      hmacSha512Hex rt (secretKey rt) (stringify rt body) \<noteq>
        hmacSha512Hex rt (secretKey rt) (stringify rt original)"
    then have "\<not> verifyWebhookSignature rt (stringify rt body) signature"
      unfolding v by auto
    then show "paystackWebhook rt s signature body = (Fail 400 ''Invalid signature.'', s)"
      by (rule paystackWebhook_rejects)
  qed
  show ?thesis
    apply (intro conjI)
       apply (rule 1)
      apply (rule 2)
     apply (rule 3)
    apply (rule 4)
    done
qed

subsection \<open>The funding example, evaluated\<close>

lemma reference_1700_1: "generatePaymentReference 1700 1 = ''WC_1700_00000001''"
  by code_simp

lemma funded: "run testRuntime emptyDb [fundingCall] = fundedDb pending 0"
  by code_simp

lemmas webhook_defs = paystackWebhook_def verifyWalletPayment_def verifyWebhookSignature_def
  signatureOf_def testRuntime_def chargeSuccess_def webhookCall_def verifyCall_def
  reference_1700_1 fundedDb_def findOne_def byTransactionReference_def saveWallet_def
  walletValid_def showInt_def digitsOf.simps number_facts Let_def

lemma webhook_50000:
  "handle testRuntime (fundedDb pending 0) (webhookCall 50000) = (WebhookOk, fundedDb completed 500)"
  by (simp add: webhook_defs)

lemma webhook_10000:
  "handle testRuntime (fundedDb pending 0) (webhookCall 10000) = (WebhookOk, fundedDb completed 100)"
  by (simp add: webhook_defs)

lemma verify_500:
  "handle testRuntime (fundedDb pending 0) verifyCall = (VerifyOk 500 500, fundedDb completed 500)"
  by (simp add: webhook_defs)

lemma webhook_after_verify:
  "handle testRuntime (fundedDb completed 500) (webhookCall 50000) = (WebhookOk, fundedDb completed 500)"
  by (simp add: webhook_defs)

lemma tampered:
  "paystackWebhook testRuntime (fundedDb pending 0) (signatureOf (chargeSuccess 50000)) (chargeSuccess 90000) =
     (Fail 400 ''Invalid signature.'', fundedDb pending 0)"
  by (simp add: webhook_defs)

text \<open>The payload signed for 50000 kobo is sent with the amount changed to 90000 and the signature kept.\<close>

theorem paystackWebhook_checks_signature_witness:
  "verifyWebhookSignature testRuntime (stringify testRuntime (chargeSuccess 50000))
     (signatureOf (chargeSuccess 50000)) \<and>
   hmacSha512Hex testRuntime (secretKey testRuntime) (stringify testRuntime (chargeSuccess 90000)) \<noteq>
     hmacSha512Hex testRuntime (secretKey testRuntime) (stringify testRuntime (chargeSuccess 50000)) \<and>
   paystackWebhook testRuntime (fundedDb pending 0)
       (signatureOf (chargeSuccess 50000)) (chargeSuccess 90000) =
     (Fail 400 ''Invalid signature.'', fundedDb pending 0)"
proof -
  have 1: "verifyWebhookSignature testRuntime (stringify testRuntime (chargeSuccess 50000))
     (signatureOf (chargeSuccess 50000))"
    by (simp add: verifyWebhookSignature_def signatureOf_def)
  have 2: "hmacSha512Hex testRuntime (secretKey testRuntime) (stringify testRuntime (chargeSuccess 90000)) \<noteq>
     hmacSha512Hex testRuntime (secretKey testRuntime) (stringify testRuntime (chargeSuccess 50000))"
    by (simp add: webhook_defs)
  have 3: "signatureOf (chargeSuccess 50000) =
     Some (hmacSha512Hex testRuntime (secretKey testRuntime) (stringify testRuntime (chargeSuccess 50000)))"
    by (simp add: signatureOf_def)
  from paystackWebhook_checks_signature[of testRuntime "chargeSuccess 90000"
      "signatureOf (chargeSuccess 50000)" "fundedDb pending 0"]
  have "\<forall>original.
      signatureOf (chargeSuccess 50000) =
        Some (hmacSha512Hex testRuntime (secretKey testRuntime) (stringify testRuntime original)) \<and>
      hmacSha512Hex testRuntime (secretKey testRuntime) (stringify testRuntime (chargeSuccess 90000)) \<noteq>
        hmacSha512Hex testRuntime (secretKey testRuntime) (stringify testRuntime original) \<longrightarrow>
      paystackWebhook testRuntime (fundedDb pending 0)
         (signatureOf (chargeSuccess 50000)) (chargeSuccess 90000) =
       (Fail 400 ''Invalid signature.'', fundedDb pending 0)"
    by (elim conjE)
  with 2 3 have "paystackWebhook testRuntime (fundedDb pending 0)
         (signatureOf (chargeSuccess 50000)) (chargeSuccess 90000) =
       (Fail 400 ''Invalid signature.'', fundedDb pending 0)"
    by blast
  with 1 2 show ?thesis by (intro conjI)
qed

section \<open>Settlement\<close>

lemma settled_refl: "settled t t"
  by (simp add: settled_def)

lemma settledWallet_refl: "settledWallet w w"
  by (simp add: settledWallet_def list_all2_refl settled_refl)

lemma settled_trans: "settled t t' \<Longrightarrow> settled t' t'' \<Longrightarrow> settled t t''"
  by (auto simp: settled_def)

lemma list_all2_settled_trans:
  "list_all2 settled xs ys \<Longrightarrow> list_all2 settled ys zs \<Longrightarrow> list_all2 settled xs zs"
  by (rule list_all2_trans[of settled settled settled]) (auto intro: settled_trans)

lemma settledWallet_trans:
  "settledWallet w w' \<Longrightarrow> settledWallet w' w'' \<Longrightarrow> settledWallet w w''"
  by (auto simp: settledWallet_def intro: list_all2_settled_trans)

lemma list_all2_settledWallet_trans:
  "list_all2 settledWallet xs ys \<Longrightarrow> list_all2 settledWallet ys zs \<Longrightarrow>
     list_all2 settledWallet xs zs"
  by (rule list_all2_trans[of settledWallet settledWallet settledWallet])
     (auto intro: settledWallet_trans)

lemma complete_settled:
  "find (\<lambda>t. tx_reference t = r) ts = Some t \<Longrightarrow> tx_status t = pending \<Longrightarrow>
     list_all2 settled ts (complete r ts)"
  by (induction ts) (auto simp: settled_def list_all2_refl split: if_splits)

lemma find_complete:
  "find (\<lambda>t. tx_reference t = r) ts = Some t \<Longrightarrow>
     find (\<lambda>t. tx_reference t = r) (complete r ts) = Some (t \<lparr> tx_status := completed \<rparr>)"
  by (induction ts) (auto split: if_splits)

lemma list_ex_complete:
  "list_ex (\<lambda>t. tx_reference t = r) (complete r ts) = list_ex (\<lambda>t. tx_reference t = r) ts"
  by (induction ts) auto

lemma list_all2_save:
  "findOne P xs = Some x \<Longrightarrow> R x d \<Longrightarrow> (\<And>y. R y y) \<Longrightarrow> list_all2 R xs (save P d xs)"
  unfolding findOne_def by (induction xs) (auto simp: list_all2_refl split: if_splits)

text \<open>The one change a settlement call can make.\<close>

lemma settle_effect:
  assumes w: "findOne (byTransactionReference r) (wallets s) = Some w"
    and t: "find (\<lambda>t. tx_reference t = r) (w_transactions w) = Some t"
    and p: "tx_status t = pending"
    and s': "s' = s \<lparr> wallets := save (byTransactionReference r)
               (w \<lparr> w_balance := b, w_transactions := complete r (w_transactions w) \<rparr>)
               (wallets s) \<rparr>"
  shows "locate r s = Some t \<and> locate r s' = Some (t \<lparr> tx_status := completed \<rparr>) \<and>
         list_all2 settledWallet (wallets s) (wallets s')"
proof -
  let ?w' = "w \<lparr> w_balance := b, w_transactions := complete r (w_transactions w) \<rparr>"
  have P: "byTransactionReference r ?w'"
    using findOne_Some[OF w] by (simp add: byTransactionReference_def list_ex_complete)
  have 1: "locate r s = Some t" using w t by (simp add: locate_def)
  have "findOne (byTransactionReference r) (wallets s') = Some ?w'"
    unfolding s' using findOne_save[OF w P] by simp
  then have 2: "locate r s' = Some (t \<lparr> tx_status := completed \<rparr>)"
    using find_complete[OF t] by (simp add: locate_def)
  have "settledWallet w ?w'"
    using complete_settled[OF t p] by (simp add: settledWallet_def)
  from list_all2_save[OF w this settledWallet_refl] have 3: "list_all2 settledWallet (wallets s) (wallets s')"
    unfolding s' by simp
  from 1 2 3 show ?thesis by blast
qed

lemma verifyWalletPayment_cases:
  "snd (verifyWalletPayment s reference pd) = s \<or>
   (\<exists>r w t. reference = Some r \<and>
      findOne (byTransactionReference r) (wallets s) = Some w \<and>
      find (\<lambda>t. tx_reference t = r) (w_transactions w) = Some t \<and> tx_status t = pending \<and>
      snd (verifyWalletPayment s reference pd) =
        s \<lparr> wallets := save (byTransactionReference r)
               (w \<lparr> w_balance := add64 (w_balance w) (tx_amount t),
                    w_transactions := complete r (w_transactions w) \<rparr>) (wallets s) \<rparr>)"
  unfolding verifyWalletPayment_def saveWallet_def
  by (auto simp: Let_def split: option.splits if_splits)

lemma paystackWebhook_cases:
  "snd (paystackWebhook rt s signature body) = s \<or>
   (\<exists>d w t. wb_data body = Some d \<and>
      findOne (byTransactionReference (d_reference d)) (wallets s) = Some w \<and>
      find (\<lambda>t. tx_reference t = d_reference d) (w_transactions w) = Some t \<and>
      tx_status t = pending \<and>
      snd (paystackWebhook rt s signature body) =
        s \<lparr> wallets := save (byTransactionReference (d_reference d))
               (w \<lparr> w_balance := add64 (w_balance w) (div64 (d_amount d) 100),
                    w_transactions := complete (d_reference d) (w_transactions w) \<rparr>)
               (wallets s) \<rparr>)"
  unfolding paystackWebhook_def saveWallet_def
  by (auto simp: Let_def split: option.splits if_splits)

lemma settlement_cases:
  assumes "isSettlementCall c"
  shows "snd (handle rt s c) = s \<or>
   (\<exists>r w t b. (\<forall>r'. settlementFor r' c \<longrightarrow> r' = r) \<and>
      findOne (byTransactionReference r) (wallets s) = Some w \<and>
      find (\<lambda>t. tx_reference t = r) (w_transactions w) = Some t \<and> tx_status t = pending \<and>
      snd (handle rt s c) =
        s \<lparr> wallets := save (byTransactionReference r)
               (w \<lparr> w_balance := b, w_transactions := complete r (w_transactions w) \<rparr>)
               (wallets s) \<rparr>)"
proof (cases c)
  case (VerifyWalletPayment reference pd)
  from verifyWalletPayment_cases[of s reference pd] show ?thesis
    unfolding VerifyWalletPayment by (auto simp del: split_paired_Ex)
next
  case (PaystackWebhook signature body)
  from paystackWebhook_cases[of rt s signature body] show ?thesis
    unfolding PaystackWebhook by (auto simp del: split_paired_Ex)
qed (use assms in simp_all)

lemma settlement_step:
  assumes c: "isSettlementCall c"
  shows "list_all2 settledWallet (wallets s) (wallets (snd (handle rt s c)))"
proof -
  from settlement_cases[OF c, of rt s] show ?thesis
  proof (elim disjE exE conjE)
    assume "snd (handle rt s c) = s"
    then show ?thesis by (simp add: list_all2_refl settledWallet_refl)
  next
    fix r w t b
    assume "findOne (byTransactionReference r) (wallets s) = Some w"
      "find (\<lambda>t. tx_reference t = r) (w_transactions w) = Some t" "tx_status t = pending"
      "snd (handle rt s c) =
        s \<lparr> wallets := save (byTransactionReference r)
               (w \<lparr> w_balance := b, w_transactions := complete r (w_transactions w) \<rparr>)
               (wallets s) \<rparr>"
    from settle_effect[OF this] show ?thesis by blast
  qed
qed

lemma settlement_run:
  "list_all isSettlementCall cs \<Longrightarrow> list_all2 settledWallet (wallets s) (wallets (run rt s cs))"
proof (induction cs arbitrary: s)
  case Nil
  show ?case by (simp add: list_all2_refl settledWallet_refl)
next
  case (Cons c cs)
  from Cons.prems have c: "isSettlementCall c" and cs: "list_all isSettlementCall cs" by simp_all
  from list_all2_settledWallet_trans[OF settlement_step[OF c, of s rt] Cons.IH[OF cs]]
  show ?case by simp
qed

lemma settlementFor_isSettlementCall: "settlementFor r c \<Longrightarrow> isSettlementCall c"
  by (cases c) simp_all

lemma settlement_changes:
  assumes c: "settlementFor r c" and ch: "snd (handle rt s c) \<noteq> s"
  shows "\<exists>t. locate r s = Some t \<and> tx_status t = pending \<and>
             locate r (snd (handle rt s c)) = Some (t \<lparr> tx_status := completed \<rparr>)"
proof -
  from settlement_cases[OF settlementFor_isSettlementCall[OF c], of rt s] ch
  obtain r' w t b where r': "\<forall>r''. settlementFor r'' c \<longrightarrow> r'' = r'"
    and e: "findOne (byTransactionReference r') (wallets s) = Some w"
      "find (\<lambda>t. tx_reference t = r') (w_transactions w) = Some t" "tx_status t = pending"
      "snd (handle rt s c) =
        s \<lparr> wallets := save (byTransactionReference r')
               (w \<lparr> w_balance := b, w_transactions := complete r' (w_transactions w) \<rparr>)
               (wallets s) \<rparr>"
    by blast
  from r' c have "r = r'" by blast
  with settle_effect[OF e] e(3) show ?thesis by blast
qed

text \<open>
  C9. A call of \<open>verifyWalletPayment\<close> or \<open>paystackWebhook\<close>, and any sequence of such
  calls, leaves every transaction as it was or turns it from pending to completed and
  changes nothing else in it: a status changes at most once, and only from pending. For
  two successive calls for one reference, each a verify or a webhook: when the transaction
  located for the reference is not pending, the first call is a no-op; when the first
  call changes the database, it has completed that transaction, which was pending; and
  then the second call changes nothing, so the balance is credited once.
\<close>

theorem settlement_happens_once:
  assumes c1: "settlementFor r c1" and c2: "settlementFor r c2"
    and s1: "s1 = snd (handle rt s c1)" and s2: "s2 = snd (handle rt s1 c2)"
  shows "list_all2 settledWallet (wallets s) (wallets s1) \<and>
         (list_all isSettlementCall cs \<longrightarrow>
            list_all2 settledWallet (wallets s) (wallets (run rt s cs))) \<and>
         (\<forall>t. locate r s = Some t \<and> tx_status t \<noteq> pending \<longrightarrow> s1 = s) \<and>
         (s1 \<noteq> s \<longrightarrow>
            (\<exists>t. locate r s = Some t \<and> tx_status t = pending \<and>
                 locate r s1 = Some (t \<lparr> tx_status := completed \<rparr>))) \<and>
         (s1 \<noteq> s \<longrightarrow> s2 = s1)"
proof -
  have 1: "list_all2 settledWallet (wallets s) (wallets s1)"
    unfolding s1 by (rule settlement_step[OF settlementFor_isSettlementCall[OF c1]])
  have 2: "list_all isSettlementCall cs \<longrightarrow>
            list_all2 settledWallet (wallets s) (wallets (run rt s cs))"
    using settlement_run by blast
  have 4: "s1 \<noteq> s \<longrightarrow>
            (\<exists>t. locate r s = Some t \<and> tx_status t = pending \<and>
                 locate r s1 = Some (t \<lparr> tx_status := completed \<rparr>))"
    unfolding s1 using settlement_changes[OF c1] by blast
  have 3: "\<forall>t. locate r s = Some t \<and> tx_status t \<noteq> pending \<longrightarrow> s1 = s"
    using 4 by auto
  have 5: "s1 \<noteq> s \<longrightarrow> s2 = s1"
  proof
    assume "s1 \<noteq> s"
    with 4 obtain t where l1: "locate r s1 = Some (t \<lparr> tx_status := completed \<rparr>)" by blast
    show "s2 = s1"
    proof (rule ccontr)
      assume "s2 \<noteq> s1"
      with settlement_changes[OF c2, of rt s1] s2
      obtain t' where "locate r s1 = Some t'" "tx_status t' = pending" by blast
      with l1 show False by simp
    qed
  qed
  show ?thesis
    apply (intro conjI)
        apply (rule 1)
       apply (rule 2)
      apply (rule 3)
     apply (rule 4)
    apply (rule 5)
    done
qed

text \<open>A verify call settles Alice's funding; the webhook for the same reference then changes nothing.\<close>

theorem settlement_happens_once_witness:
  "settlementFor ''WC_1700_00000001'' verifyCall \<and>
   settlementFor ''WC_1700_00000001'' (webhookCall 50000) \<and>
   snd (handle testRuntime (fundedDb pending 0) verifyCall) = fundedDb completed 500 \<and>
   fundedDb completed 500 \<noteq> fundedDb pending 0 \<and>
   snd (handle testRuntime (fundedDb completed 500) (webhookCall 50000)) = fundedDb completed 500"
proof -
  have c1: "settlementFor ''WC_1700_00000001'' verifyCall"
    and c2: "settlementFor ''WC_1700_00000001'' (webhookCall 50000)"
    by (simp_all add: verifyCall_def webhookCall_def chargeSuccess_def reference_1700_1)
  have s1: "fundedDb completed 500 = snd (handle testRuntime (fundedDb pending 0) verifyCall)"
    by (simp add: verify_500)
  have ne: "fundedDb completed 500 \<noteq> fundedDb pending 0"
    by (simp add: fundedDb_def)
  from settlement_happens_once[OF c1 c2 s1 refl, of "[]"]
  have "fundedDb completed 500 \<noteq> fundedDb pending 0 \<longrightarrow>
          snd (handle testRuntime (fundedDb completed 500) (webhookCall 50000)) = fundedDb completed 500"
    by (elim conjE)
  with ne
  have "snd (handle testRuntime (fundedDb completed 500) (webhookCall 50000)) = fundedDb completed 500"
    by (elim impE)
  with c1 c2 s1 ne show ?thesis by simp
qed

section \<open>The ledger and the balance\<close>

text \<open>
  C1 (the balance of every wallet equals its completed credits less its completed debits)
  does not hold of the code. Alice requests a funding of 500, and the signed webhook for
  the reference of her request reports a charge of 10000 kobo: the handler completes the
  transaction of 500 and raises the balance by \<open>10000 / 100 = 100\<close>, the amount of the
  payload, so the balance is 100 while the ledger says 500. The verify call on the same
  pending transaction raises the balance by the amount of the transaction, and the wallet
  stays balanced.
\<close>

theorem webhook_credit_differs_from_ledger:
  "run testRuntime emptyDb [fundingCall, webhookCall 10000] = fundedDb completed 100 \<and>
   map w_balance (wallets (fundedDb completed 100)) = [100] \<and>
   map ledger (map w_transactions (wallets (fundedDb completed 100))) = [500] \<and>
   \<not> list_all balanced (wallets (run testRuntime emptyDb [fundingCall, webhookCall 10000])) \<and>
   run testRuntime emptyDb [fundingCall, verifyCall] = fundedDb completed 500 \<and>
   list_all balanced (wallets (run testRuntime emptyDb [fundingCall, verifyCall]))"
proof -
  have f: "snd (handle testRuntime emptyDb fundingCall) = fundedDb pending 0"
    using funded by simp
  have 1: "run testRuntime emptyDb [fundingCall, webhookCall 10000] = fundedDb completed 100"
    by (simp add: f webhook_10000)
  have 2: "run testRuntime emptyDb [fundingCall, verifyCall] = fundedDb completed 500"
    by (simp add: f verify_500)
  show ?thesis
    unfolding 1 2 by (simp add: fundedDb_def balanced_def)
qed


end
